theory Spec2Isabelle
  imports Main
begin

section \<open>The IMDb client of imdb-trakt-sync (pkg/client/imdb.go)\<close>

text \<open>
  The Go functions of \<^verbatim>\<open>pkg/client/imdb.go\<close> are embedded as HOL functions of the
  same names. A Go \<^verbatim>\<open>string\<close> is a byte sequence, hence a \<^typ>\<open>string\<close>. What a Go
  function does beyond returning its values is made explicit:
  \<^item> a function returns normally, panics (a runtime error such as a nil dereference or
    an index out of range) or ends the process through \<^verbatim>\<open>log.Fatalf\<close>: the three
    constructors of \<open>outcome\<close>;
  \<^item> a Go \<^verbatim>\<open>error\<close> result is an \<open>error option\<close> (\<open>None\<close> is \<^verbatim>\<open>nil\<close>), a
    pointer result an option as well;
  \<^item> the network is a state of type \<open>'net\<close> that every request reads and updates;
  \<^item> the library functions whose result depends on data outside this file (URL
    parsing, the HTTP round trip, the MIME parser, the Unicode tables) are the fields
    of the record \<open>go_lib\<close>, so that every theorem holds for each of their behaviours.
\<close>

subsection \<open>Errors and outcomes\<close>

text \<open>
  Modelled from the spec: the struct types \<^verbatim>\<open>ImdbError\<close> and
  \<^verbatim>\<open>ResourceNotFoundError\<close> are declared in another file of the package; their fields are
  the ones the composite literals of \<^verbatim>\<open>imdb.go\<close> assign (method, URL, status code, details;
  resource kind and optional resource id). \<open>Wraps m e\<close> is \<^verbatim>\<open>fmt.Errorf(m + ": %w", e)\<close>,
  \<open>Errorf m\<close> is \<^verbatim>\<open>fmt.Errorf(m)\<close>, \<open>LibError m\<close> is an error made by a library.
\<close>

datatype error =
    LibError string
  | ImdbError string string nat string
  | ResourceNotFoundError string "string option"
  | Errorf string
  | Wraps string error

datatype 'a outcome = Returns 'a | Panics string | Fatal string

text \<open>\<^verbatim>\<open>errors.As(err, new(*ResourceNotFoundError))\<close>: walks the chain of wrapped errors.\<close>

fun As_ResourceNotFoundError :: "error \<Rightarrow> bool" where
  "As_ResourceNotFoundError (ResourceNotFoundError t i) = True"
| "As_ResourceNotFoundError (Wraps m e) = As_ResourceNotFoundError e"
| "As_ResourceNotFoundError (LibError m) = False"
| "As_ResourceNotFoundError (ImdbError m u c d) = False"
| "As_ResourceNotFoundError (Errorf m) = False"

definition errors_As_ResourceNotFoundError :: "error option \<Rightarrow> bool" where
  "errors_As_ResourceNotFoundError err =
     (case err of None \<Rightarrow> False | Some e \<Rightarrow> As_ResourceNotFoundError e)"

definition nil_dereference :: string where
  "nil_dereference = ''invalid memory address or nil pointer dereference''"

definition index_out_of_range :: string where
  "index_out_of_range = ''index out of range''"

text \<open>\<open>record[i]\<close> on a Go slice: a panic when \<open>i\<close> is not below the length.\<close>

definition index :: "'a list \<Rightarrow> nat \<Rightarrow> 'a outcome" where
  "index xs i = (if i < length xs then Returns (xs ! i) else Panics index_out_of_range)"

fun bind_outcome :: "'a outcome \<Rightarrow> ('a \<Rightarrow> 'b outcome) \<Rightarrow> 'b outcome" where
  "bind_outcome (Returns a) f = f a"
| "bind_outcome (Panics m) f = Panics m"
| "bind_outcome (Fatal m) f = Fatal m"

text \<open>A step of a function that talks to the network, followed by the rest of it.\<close>

fun and_then :: "'a outcome \<times> 'n \<Rightarrow> ('a \<Rightarrow> 'n \<Rightarrow> 'b outcome \<times> 'n) \<Rightarrow> 'b outcome \<times> 'n" where
  "and_then (Returns a, s) f = f a s"
| "and_then (Panics m, s) f = (Panics m, s)"
| "and_then (Fatal m, s) f = (Fatal m, s)"

subsection \<open>Constants\<close>

definition imdbCookieNameAtMain :: string where "imdbCookieNameAtMain = ''at-main''"
definition imdbCookieNameUbidMain :: string where "imdbCookieNameUbidMain = ''ubid-main''"
definition imdbHeaderKeyContentDisposition :: string where
  "imdbHeaderKeyContentDisposition = ''Content-Disposition''"
definition imdbPathBase :: string where "imdbPathBase = ''https://www.imdb.com''"
definition imdbPathListExport :: "string \<Rightarrow> string" where
  "imdbPathListExport listId = ''/list/'' @ listId @ ''/export''"
definition imdbPathLists :: "string \<Rightarrow> string" where
  "imdbPathLists userId = ''/user/'' @ userId @ ''/lists''"
definition imdbPathProfile :: string where "imdbPathProfile = ''/profile''"
definition imdbPathRatingsExport :: "string \<Rightarrow> string" where
  "imdbPathRatingsExport userId = ''/user/'' @ userId @ ''/ratings/export''"
definition imdbPathWatchlist :: string where "imdbPathWatchlist = ''/watchlist''"
definition http_MethodGet :: string where "http_MethodGet = ''GET''"

text \<open>
  Modelled from the spec: the string constants \<^verbatim>\<open>resourceTypeList\<close>,
  \<^verbatim>\<open>resourceTypeWatchlist\<close> and \<^verbatim>\<open>resourceTypeRating\<close> are declared in another file;
  the spec names the three resource kinds list, watchlist and rating.
\<close>

definition resourceTypeList :: string where "resourceTypeList = ''list''"
definition resourceTypeWatchlist :: string where "resourceTypeWatchlist = ''watchlist''"
definition resourceTypeRating :: string where "resourceTypeRating = ''rating''"

subsection \<open>Data\<close>

record ImdbConfig =
  CookieAtMain :: string
  CookieUbidMain :: string
  UserId :: string
  WatchlistId :: string

text \<open>A cookie is a name and a value; the jar keeps the cookies set for each URL.\<close>

type_synonym cookie = "string \<times> string"
type_synonym cookiejar = "(string \<times> cookie list) list"

text \<open>The client; its logger only writes messages and is left out.\<close>

record ImdbClient =
  endpoint :: string
  client_Jar :: cookiejar
  config :: ImdbConfig

text \<open>
  Modelled from the spec: \<^verbatim>\<open>requestParams\<close> is declared in another file; it has the
  fields \<^verbatim>\<open>Method\<close>, \<^verbatim>\<open>Path\<close> and \<^verbatim>\<open>Body\<close> that \<^verbatim>\<open>doRequest\<close> reads. A body object is
  represented by what \<^verbatim>\<open>json.Marshal\<close> returns on it.
\<close>

type_synonym json_Marshal = "error + string"

record requestParams =
  Method :: string
  Path :: string
  Body :: "json_Marshal option"

record request =
  req_Method :: string
  req_URL :: string
  req_Body :: "string option"

text \<open>
  A parsed HTML document answers a selector with the matched elements in document
  order, each element being its attributes (\<^verbatim>\<open>doc.Find(selector)\<close> of goquery).
\<close>

type_synonym attributes = "(string \<times> string) list"
type_synonym selection = "attributes list"
type_synonym document = "string \<Rightarrow> selection"

text \<open>\<^verbatim>\<open>selection.Attr(name)\<close>: the attribute of the first element of the selection.\<close>

definition Attr :: "selection \<Rightarrow> string \<Rightarrow> string option" where
  "Attr sel name = (case sel of [] \<Rightarrow> None | el # _ \<Rightarrow> map_of el name)"

text \<open>
  A response body is a stream; it is represented by what its readers make of it:
  \<^verbatim>\<open>goquery.NewDocumentFromReader\<close>, \<^verbatim>\<open>csv.Reader.ReadAll\<close> (with \<^verbatim>\<open>LazyQuotes\<close> and any
  number of fields per record) and \<^verbatim>\<open>Close\<close>.
\<close>

record body =
  NewDocumentFromReader :: "error + document"
  ReadAll :: "error + string list list"
  Close :: "error option"

record response =
  StatusCode :: nat
  Header :: "(string \<times> string) list"
  res_Body :: body
  Request_URL :: string

text \<open>\<^verbatim>\<open>res.Header.Get(key)\<close>: the first value of the key, the empty string without one.\<close>

definition Header_Get :: "(string \<times> string) list \<Rightarrow> string \<Rightarrow> string" where
  "Header_Get h key = (case map_of h key of None \<Rightarrow> [] | Some v \<Rightarrow> v)"

text \<open>
  Modelled from the spec: \<^verbatim>\<open>entities.ImdbItem\<close> and \<^verbatim>\<open>entities.DataPair\<close> are declared
  in another package; their fields are the ones the composite literals of \<^verbatim>\<open>imdb.go\<close>
  assign. A \<^verbatim>\<open>time.Time\<close> parsed from a date is its year, month and day.
\<close>

record date =
  Year :: nat
  Month :: nat
  Day :: nat

record ImdbItem =
  Id_item :: string
  TitleType :: string
  Rating :: "int option"
  RatingDate :: "date option"

record DataPair =
  ImdbList :: "ImdbItem list"
  ImdbListId :: string
  ImdbListName :: string
  TraktListId :: string

subsection \<open>The library\<close>

text \<open>
  \<^verbatim>\<open>url.Parse\<close> (the parsed URL is kept as a string), \<^verbatim>\<open>cookiejar.New(nil)\<close> (its
  error), \<^verbatim>\<open>http.NewRequest\<close> of a method and a URL, \<^verbatim>\<open>c.client.Do\<close> with the jar of the
  client (the response and the error, either of which can be \<^verbatim>\<open>nil\<close>),
  \<^verbatim>\<open>mime.ParseMediaType\<close> (media type, parameters, error), and the two functions of
  \<^verbatim>\<open>strings\<close> on strings that are not ASCII.
\<close>

record 'net go_lib =
  url_Parse :: "string \<Rightarrow> error + string"
  cookiejar_New :: "error option"
  http_NewRequest :: "string \<Rightarrow> string \<Rightarrow> error + request"
  client_Do :: "cookiejar \<Rightarrow> request \<Rightarrow> 'net \<Rightarrow> (response option \<times> error option) \<times> 'net"
  mime_ParseMediaType :: "string \<Rightarrow> string \<times> (string \<times> string) list \<times> error option"
  FieldsFunc_IsSpace :: "string \<Rightarrow> string list"
  Map_ToLower :: "string \<Rightarrow> string"

text \<open>
  \<^verbatim>\<open>strings.Fields\<close>, \<^verbatim>\<open>strings.ToLower\<close>: the standard library decides both on the
  bytes alone when every byte is below \<^verbatim>\<open>utf8.RuneSelf\<close> (0x80), and goes through the
  Unicode tables otherwise (\<^verbatim>\<open>FieldsFunc(s, unicode.IsSpace)\<close>,
  \<^verbatim>\<open>Map(unicode.ToLower, s)\<close>), which are fields of \<open>go_lib\<close>.
\<close>

definition isASCII :: "string \<Rightarrow> bool" where
  "isASCII s = list_all (\<lambda>c. (of_char c :: nat) < 128) s"

definition asciiSpace :: "char \<Rightarrow> bool" where
  "asciiSpace c = (c = CHR 0x09 \<or> c = CHR 0x0A \<or> c = CHR 0x0B \<or> c = CHR 0x0C
                    \<or> c = CHR 0x0D \<or> c = CHR '' '')"

text \<open>The fields of an ASCII string; \<open>w\<close> is the field being read.\<close>

fun ascii_fields :: "string \<Rightarrow> string \<Rightarrow> string list" where
  "ascii_fields w [] = (if w = [] then [] else [w])"
| "ascii_fields w (c # cs) =
     (if asciiSpace c then (if w = [] then ascii_fields [] cs else w # ascii_fields [] cs)
      else ascii_fields (w @ [c]) cs)"

definition strings_Fields :: "'net go_lib \<Rightarrow> string \<Rightarrow> string list" where
  "strings_Fields L s = (if isASCII s then ascii_fields [] s else FieldsFunc_IsSpace L s)"

fun strings_Join :: "string list \<Rightarrow> string \<Rightarrow> string" where
  "strings_Join [] sep = []"
| "strings_Join [a] sep = a"
| "strings_Join (a # b # elems) sep = a @ sep @ strings_Join (b # elems) sep"

definition lower_byte :: "char \<Rightarrow> char" where
  "lower_byte c =
     (let n = (of_char c :: nat) in if 65 \<le> n \<and> n \<le> 90 then char_of (n + 32) else c)"

definition strings_ToLower :: "'net go_lib \<Rightarrow> string \<Rightarrow> string" where
  "strings_ToLower L s = (if isASCII s then map lower_byte s else Map_ToLower L s)"

text \<open>
  \<^verbatim>\<open>strings.Split(s, sep)\<close> for a separator of one byte: the pieces between the
  separators, at least one piece.
\<close>

fun strings_Split :: "string \<Rightarrow> char \<Rightarrow> string list" where
  "strings_Split [] sep = [[]]"
| "strings_Split (c # cs) sep =
     (if c = sep then [] # strings_Split cs sep
      else (case strings_Split cs sep of [] \<Rightarrow> [[c]] | w # ws \<Rightarrow> (c # w) # ws))"

text \<open>
  The character class \<^verbatim>\<open>[-a-z0-9]\<close>. The regular expression \<^verbatim>\<open>[^-a-z0-9]+\<close> matches every
  maximal run of characters outside the class; a byte from 0x80 on belongs to a
  character outside the class (or is invalid, which the matcher reads as U+FFFD), so
  that replacing the matches by the empty string keeps exactly the bytes of the class.
\<close>

definition slug_byte :: "char \<Rightarrow> bool" where
  "slug_byte c =
     (let n = (of_char c :: nat) in n = 45 \<or> (97 \<le> n \<and> n \<le> 122) \<or> (48 \<le> n \<and> n \<le> 57))"

definition ReplaceAllString_nonslug_empty :: "string \<Rightarrow> string" where
  "ReplaceAllString_nonslug_empty s = filter slug_byte s"

text \<open>\<^verbatim>\<open>fmt.Sprintf("%d", n)\<close> for a number that is not negative.\<close>

fun Sprintf_d :: "nat \<Rightarrow> string" where
  "Sprintf_d n =
     (if n < 10 then [char_of (48 + n)] else Sprintf_d (n div 10) @ [char_of (48 + n mod 10)])"

definition isDigit :: "char \<Rightarrow> bool" where
  "isDigit c = (let n = (of_char c :: nat) in 48 \<le> n \<and> n \<le> 57)"

definition digit_value :: "char \<Rightarrow> nat" where
  "digit_value c = of_char c - 48"

text \<open>The number a string of decimal digits denotes; \<open>acc\<close> is the value read so far.\<close>

fun decimal :: "nat \<Rightarrow> string \<Rightarrow> nat" where
  "decimal acc [] = acc"
| "decimal acc (c # cs) = decimal (acc * 10 + digit_value c) cs"

text \<open>
  \<^verbatim>\<open>strconv.Atoi\<close> with a 64-bit \<^verbatim>\<open>int\<close>: an optional sign and at least one decimal
  digit, nothing else, and a value that fits; any other string is an error.
\<close>

definition strconv_Atoi :: "string \<Rightarrow> error + int" where
  "strconv_Atoi s =
     (let (neg, ds) = (case s of [] \<Rightarrow> (False, [])
                       | c # cs \<Rightarrow> if c = CHR ''-'' then (True, cs)
                                   else if c = CHR ''+'' then (False, cs) else (False, s))
      in if ds = [] \<or> \<not> list_all isDigit ds then Inl (LibError ''strconv.Atoi: invalid syntax'')
         else let n = (if neg then - int (decimal 0 ds) else int (decimal 0 ds))
              in if n < - (2 ^ 63) \<or> 2 ^ 63 - 1 < n
                 then Inl (LibError ''strconv.Atoi: value out of range'') else Inr n)"

definition isLeap :: "nat \<Rightarrow> bool" where
  "isLeap y = (y mod 4 = 0 \<and> (y mod 100 \<noteq> 0 \<or> y mod 400 = 0))"

definition daysIn :: "nat \<Rightarrow> nat \<Rightarrow> nat" where
  "daysIn m y =
     (if m = 2 then (if isLeap y then 29 else 28)
      else if m = 4 \<or> m = 6 \<or> m = 9 \<or> m = 11 then 30 else 31)"

text \<open>
  \<^verbatim>\<open>time.Parse("2006-01-02", value)\<close>: four digits of year, a hyphen, two digits of
  month, a hyphen, two digits of day and nothing after them; the month is from 1 to 12
  and the day exists in that month of that year.
\<close>

definition time_Parse_2006_01_02 :: "string \<Rightarrow> error + date" where
  "time_Parse_2006_01_02 v =
     (case v of
        [y1, y2, y3, y4, h1, m1, m2, h2, d1, d2] \<Rightarrow>
          if list_all isDigit [y1, y2, y3, y4] \<and> h1 = CHR ''-'' \<and> list_all isDigit [m1, m2]
             \<and> h2 = CHR ''-'' \<and> list_all isDigit [d1, d2]
          then (let y = decimal 0 [y1, y2, y3, y4]; m = decimal 0 [m1, m2]; d = decimal 0 [d1, d2]
                in if m < 1 \<or> 12 < m then Inl (LibError ''parsing time: month out of range'')
                   else if d < 1 \<or> daysIn m y < d
                   then Inl (LibError ''parsing time: day out of range'')
                   else Inr \<lparr>Year = y, Month = m, Day = d\<rparr>)
          else Inl (LibError ''parsing time: cannot parse'')
      | _ \<Rightarrow> Inl (LibError ''parsing time: cannot parse''))"

subsection \<open>FormatTraktListName\<close>

definition FormatTraktListName :: "'net go_lib \<Rightarrow> string \<Rightarrow> string" where
  "FormatTraktListName L imdbListName =
     (let formatted = strings_ToLower L (strings_Join (strings_Fields L imdbListName) ''-'')
      in ReplaceAllString_nonslug_empty formatted)"

subsection \<open>setupCookieJar\<close>

definition setupCookieJar :: "'net go_lib \<Rightarrow> ImdbConfig \<Rightarrow> error + cookiejar" where
  "setupCookieJar L cfg =
     (case url_Parse L imdbPathBase of
        Inl err \<Rightarrow> Inl (Wraps (''failure parsing '' @ imdbPathBase @ '' as url'') err)
      | Inr imdbUrl \<Rightarrow>
          (case cookiejar_New L of
             Some err \<Rightarrow> Inl (Wraps ''failure creating cookie jar'' err)
           | None \<Rightarrow>
               Inr [(imdbUrl, [(imdbCookieNameAtMain, CookieAtMain cfg),
                               (imdbCookieNameUbidMain, CookieUbidMain cfg)])]))"

subsection \<open>doRequest\<close>

text \<open>
  The result \<^verbatim>\<open>(nil, err)\<close> is \<open>Inl err\<close> and \<^verbatim>\<open>(res, nil)\<close> is \<open>Inr res\<close>. When
  \<^verbatim>\<open>c.client.Do\<close> fails, the error message reads \<^verbatim>\<open>res.Request.URL\<close>, which
  dereferences the response the call returned.
\<close>

definition doRequest ::
  "'net go_lib \<Rightarrow> ImdbClient \<Rightarrow> requestParams \<Rightarrow> 'net \<Rightarrow> (error + response) outcome \<times> 'net" where
  "doRequest L c params s =
     (case http_NewRequest L (Method params) (endpoint c @ Path params) of
        Inl err \<Rightarrow>
          (Returns (Inl (Wraps (''failure creating http request '' @ Method params @ '' ''
                                  @ endpoint c @ Path params) err)), s)
      | Inr req0 \<Rightarrow>
          (case (case Body params of
                   None \<Rightarrow> Inr req0
                 | Some b \<Rightarrow>
                     (case b of
                        Inl err \<Rightarrow>
                          Inl (Wraps (''failure marshalling http request body for ''
                                       @ Method params @ '' '' @ req_URL req0) err)
                      | Inr bytes \<Rightarrow> Inr (req0\<lparr>req_Body := Some bytes\<rparr>))) of
             Inl e \<Rightarrow> (Returns (Inl e), s)
           | Inr req \<Rightarrow>
               (case client_Do L (client_Jar c) req s of
                  ((res, Some err), s') \<Rightarrow>
                    (case res of
                       None \<Rightarrow> (Panics nil_dereference, s')
                     | Some r \<Rightarrow>
                         (Returns (Inl (Wraps (''failure sending http request '' @ Method params
                                                 @ '' '' @ Request_URL r) err)), s'))
                | ((res, None), s') \<Rightarrow>
                    (case res of
                       None \<Rightarrow> (Panics nil_dereference, s')
                     | Some r \<Rightarrow>
                         if StatusCode r = 200 then (Returns (Inr r), s')
                         else if StatusCode r = 403
                         then (Returns (Inl (ImdbError (req_Method req) (req_URL req) (StatusCode r)
                                 ''imdb authorization failure - update the imdb cookie values'')), s')
                         else if StatusCode r = 404 then (Returns (Inr r), s')
                         else (Returns (Inl (ImdbError (req_Method req) (req_URL req) (StatusCode r)
                                 (''unexpected status code '' @ Sprintf_d (StatusCode r)))), s')))))"

subsection \<open>DrainBody and its deferred call\<close>

definition DrainBody :: "body \<Rightarrow> unit outcome" where
  "DrainBody b =
     (case Close b of Some err \<Rightarrow> Fatal ''error closing response body'' | None \<Rightarrow> Returns ())"

text \<open>
  \<^verbatim>\<open>defer DrainBody(res.Body)\<close>: the call runs when the function returns or panics,
  and not when \<^verbatim>\<open>log.Fatalf\<close> has ended the process.
\<close>

definition deferred :: "unit outcome \<Rightarrow> 'a outcome \<Rightarrow> 'a outcome" where
  "deferred d r =
     (case r of
        Fatal m \<Rightarrow> Fatal m
      | Returns a \<Rightarrow> (case d of Returns u \<Rightarrow> Returns a | Panics m \<Rightarrow> Panics m | Fatal m \<Rightarrow> Fatal m)
      | Panics p \<Rightarrow> (case d of Returns u \<Rightarrow> Panics p | Panics m \<Rightarrow> Panics m | Fatal m \<Rightarrow> Fatal m))"

subsection \<open>readResponse\<close>

text \<open>The loop of the list export; \<open>i\<close> is the index of the record.\<close>

fun list_records :: "nat \<Rightarrow> string list list \<Rightarrow> ImdbItem list \<Rightarrow> ImdbItem list outcome" where
  "list_records i [] imdbList = Returns imdbList"
| "list_records i (record # csvData) imdbList =
     (if i > 0
      then (case index record 1 of
              Returns id1 \<Rightarrow>
                (case index record 7 of
                   Returns tt \<Rightarrow>
                     list_records (Suc i) csvData
                       (imdbList @ [\<lparr>Id_item = id1, TitleType = tt, Rating = None, RatingDate = None\<rparr>])
                 | Panics m \<Rightarrow> Panics m
                 | Fatal m \<Rightarrow> Fatal m)
            | Panics m \<Rightarrow> Panics m
            | Fatal m \<Rightarrow> Fatal m)
      else list_records (Suc i) csvData imdbList)"

text \<open>The loop of the ratings export.\<close>

fun rating_records :: "nat \<Rightarrow> string list list \<Rightarrow> ImdbItem list \<Rightarrow> ImdbItem list outcome" where
  "rating_records i [] imdbList = Returns imdbList"
| "rating_records i (record # csvData) imdbList =
     (if i > 0
      then (case index record 1 of
              Returns r1 \<Rightarrow>
                (case strconv_Atoi r1 of
                   Inl err \<Rightarrow> Fatal ''error parsing imdb rating value''
                 | Inr rating \<Rightarrow>
                     (case index record 2 of
                        Returns r2 \<Rightarrow>
                          (case time_Parse_2006_01_02 r2 of
                             Inl err \<Rightarrow> Fatal ''error parsing imdb rating date''
                           | Inr ratingDate \<Rightarrow>
                               (case index record 0 of
                                  Returns r0 \<Rightarrow>
                                    (case index record 5 of
                                       Returns r5 \<Rightarrow>
                                         rating_records (Suc i) csvData
                                           (imdbList @ [\<lparr>Id_item = r0, TitleType = r5,
                                                         Rating = Some rating,
                                                         RatingDate = Some ratingDate\<rparr>])
                                     | Panics m \<Rightarrow> Panics m
                                     | Fatal m \<Rightarrow> Fatal m)
                                | Panics m \<Rightarrow> Panics m
                                | Fatal m \<Rightarrow> Fatal m))
                      | Panics m \<Rightarrow> Panics m
                      | Fatal m \<Rightarrow> Fatal m))
            | Panics m \<Rightarrow> Panics m
            | Fatal m \<Rightarrow> Fatal m)
      else rating_records (Suc i) csvData imdbList)"

definition readResponse ::
  "'net go_lib \<Rightarrow> response \<Rightarrow> string \<Rightarrow> (string option \<times> ImdbItem list) outcome" where
  "readResponse L res resType =
     (case ReadAll (res_Body res) of
        Inl err \<Rightarrow> Fatal ''error reading imdb response''
      | Inr csvData \<Rightarrow>
          if resType = resourceTypeList
          then (case list_records 0 csvData [] of
                  Returns imdbList \<Rightarrow>
                    (let contentDispositionHeader =
                           Header_Get (Header res) imdbHeaderKeyContentDisposition
                     in if contentDispositionHeader = []
                        then Fatal ''error reading header Content-Disposition from imdb response''
                        else (case mime_ParseMediaType L contentDispositionHeader of
                                (mediatype, params, err) \<Rightarrow>
                                  if err \<noteq> None \<or> length params = 0
                                  then Fatal ''error parsing media type from header''
                                  else (case index (strings_Split
                                                      (case map_of params ''filename'' of
                                                         None \<Rightarrow> [] | Some v \<Rightarrow> v) CHR ''.'') 0 of
                                          Returns imdbListName \<Rightarrow> Returns (Some imdbListName, imdbList)
                                        | Panics m \<Rightarrow> Panics m
                                        | Fatal m \<Rightarrow> Fatal m)))
                | Panics m \<Rightarrow> Panics m
                | Fatal m \<Rightarrow> Fatal m)
          else if resType = resourceTypeRating
          then (case rating_records 0 csvData [] of
                  Returns imdbList \<Rightarrow> Returns (None, imdbList)
                | Panics m \<Rightarrow> Panics m
                | Fatal m \<Rightarrow> Fatal m)
          else Fatal ''unknown imdb response type'')"

subsection \<open>The export operations\<close>

text \<open>
  The three results \<^verbatim>\<open>(*string, []entities.ImdbItem, error)\<close> are a triple; the
  \<^verbatim>\<open>nil\<close> slice is the empty list.
\<close>

definition ListItemsGet ::
  "'net go_lib \<Rightarrow> ImdbClient \<Rightarrow> string \<Rightarrow> 'net
     \<Rightarrow> (string option \<times> ImdbItem list \<times> error option) outcome \<times> 'net" where
  "ListItemsGet L c listId s =
     (let path = imdbPathListExport listId
      in and_then (doRequest L c \<lparr>Method = http_MethodGet, Path = path, Body = None\<rparr> s)
           (\<lambda>r s'. case r of
              Inl err \<Rightarrow>
                (Returns (None, [], Some (Wraps (''failure trying to retrieve imdb list '' @ listId) err)), s')
            | Inr res \<Rightarrow>
                (deferred (DrainBody (res_Body res))
                   (if StatusCode res = 404
                    then Returns (None, [], Some (ResourceNotFoundError resourceTypeList (Some listId)))
                    else bind_outcome (readResponse L res resourceTypeList)
                           (\<lambda>(listName, list). Returns (listName, list, None))), s')))"

definition WatchlistGet ::
  "'net go_lib \<Rightarrow> ImdbClient \<Rightarrow> 'net
     \<Rightarrow> (string option \<times> ImdbItem list \<times> error option) outcome \<times> 'net" where
  "WatchlistGet L c s =
     (let path = imdbPathListExport (WatchlistId (config c))
      in and_then (doRequest L c \<lparr>Method = http_MethodGet, Path = path, Body = None\<rparr> s)
           (\<lambda>r s'. case r of
              Inl err \<Rightarrow>
                (Returns (None, [], Some (Wraps (''failure trying to retrieve imdb watchlist ''
                                                   @ WatchlistId (config c)) err)), s')
            | Inr res \<Rightarrow>
                (deferred (DrainBody (res_Body res))
                   (if StatusCode res = 404
                    then Returns (None, [], Some (ResourceNotFoundError resourceTypeWatchlist
                                                    (Some (WatchlistId (config c)))))
                    else bind_outcome (readResponse L res resourceTypeList)
                           (\<lambda>(ignored, list). Returns (Some (WatchlistId (config c)), list, None))), s')))"

definition RatingsGet ::
  "'net go_lib \<Rightarrow> ImdbClient \<Rightarrow> 'net \<Rightarrow> (ImdbItem list \<times> error option) outcome \<times> 'net" where
  "RatingsGet L c s =
     and_then (doRequest L c \<lparr>Method = http_MethodGet,
                               Path = imdbPathRatingsExport (UserId (config c)), Body = None\<rparr> s)
       (\<lambda>r s'. case r of
          Inl err \<Rightarrow> (Returns ([], Some (Wraps ''failure trying to retrieve imdb ratings'' err)), s')
        | Inr res \<Rightarrow>
            (deferred (DrainBody (res_Body res))
               (if StatusCode res = 404
                then Returns ([], Some (ResourceNotFoundError resourceTypeRating None))
                else bind_outcome (readResponse L res resourceTypeRating)
                       (\<lambda>(ignored, ratings). Returns (ratings, None))), s'))"

subsection \<open>ListsScrape\<close>

text \<open>
  The function passed to \<^verbatim>\<open>Each\<close>, run on the elements of the selection in order;
  \<open>dps\<close> is the slice the function appends to. After the test for
  \<^verbatim>\<open>ResourceNotFoundError\<close> the function dereferences \<^verbatim>\<open>imdbListName\<close> whatever
  \<^verbatim>\<open>err\<close> is.
\<close>

fun ListsScrape_Each ::
  "'net go_lib \<Rightarrow> ImdbClient \<Rightarrow> selection \<Rightarrow> DataPair list \<Rightarrow> 'net \<Rightarrow> DataPair list outcome \<times> 'net" where
  "ListsScrape_Each L c [] dps s = (Returns dps, s)"
| "ListsScrape_Each L c (el # els) dps s =
     (case Attr [el] ''id'' of
        None \<Rightarrow> ListsScrape_Each L c els dps s
      | Some imdbListId \<Rightarrow>
          (case ListItemsGet L c imdbListId s of
             (Returns (imdbListName, imdbList, err), s') \<Rightarrow>
               if errors_As_ResourceNotFoundError err then ListsScrape_Each L c els dps s'
               else (case imdbListName of
                       None \<Rightarrow> (Panics nil_dereference, s')
                     | Some name \<Rightarrow>
                         ListsScrape_Each L c els
                           (dps @ [\<lparr>ImdbList = imdbList, ImdbListId = imdbListId,
                                    ImdbListName = name,
                                    TraktListId = FormatTraktListName L name\<rparr>]) s')
           | (Panics m, s') \<Rightarrow> (Panics m, s')
           | (Fatal m, s') \<Rightarrow> (Fatal m, s')))"

definition ListsScrape ::
  "'net go_lib \<Rightarrow> ImdbClient \<Rightarrow> 'net \<Rightarrow> (DataPair list \<times> error option) outcome \<times> 'net" where
  "ListsScrape L c s =
     and_then (doRequest L c \<lparr>Method = http_MethodGet,
                               Path = imdbPathLists (UserId (config c)), Body = None\<rparr> s)
       (\<lambda>r s'. case r of
          Inl err \<Rightarrow> (Returns ([], Some (Wraps ''failure trying to scrape imdb lists'' err)), s')
        | Inr res \<Rightarrow>
            (case NewDocumentFromReader (res_Body res) of
               Inl err \<Rightarrow>
                 (deferred (DrainBody (res_Body res))
                    (Returns ([], Some (Wraps ''failure creating goquery document from imdb response'' err))),
                  s')
             | Inr doc \<Rightarrow>
                 (case ListsScrape_Each L c (doc ''.user-list'') [] s' of
                    (r, s'') \<Rightarrow>
                      (deferred (DrainBody (res_Body res))
                         (bind_outcome r (\<lambda>dps. Returns (dps, None))), s''))))"

subsection \<open>The identity scrapes and the construction of the client\<close>

text \<open>
  \<^verbatim>\<open>UserIdScrape\<close> and \<^verbatim>\<open>WatchlistIdScrape\<close> assign a field of \<^verbatim>\<open>c.config\<close>: they
  return the client as they leave it, with their \<^verbatim>\<open>error\<close>.
\<close>

definition UserIdScrape ::
  "'net go_lib \<Rightarrow> ImdbClient \<Rightarrow> 'net \<Rightarrow> (ImdbClient \<times> error option) outcome \<times> 'net" where
  "UserIdScrape L c s =
     and_then (doRequest L c \<lparr>Method = http_MethodGet, Path = imdbPathProfile, Body = None\<rparr> s)
       (\<lambda>r s'. case r of
          Inl err \<Rightarrow> (Returns (c, Some (Wraps ''failure trying to scrape imdb user id'' err)), s')
        | Inr res \<Rightarrow>
            (deferred (DrainBody (res_Body res))
               (case NewDocumentFromReader (res_Body res) of
                  Inl err \<Rightarrow>
                    Returns (c, Some (Wraps ''failure creating goquery document from imdb response'' err))
                | Inr doc \<Rightarrow>
                    (case Attr (doc ''.user-profile.userId'') ''data-userid'' of
                       None \<Rightarrow> Returns (c, Some (Errorf ''failure scraping imdb profile: user id not found''))
                     | Some userId \<Rightarrow> Returns (c\<lparr>config := (config c)\<lparr>UserId := userId\<rparr>\<rparr>, None))), s'))"

definition WatchlistIdScrape ::
  "'net go_lib \<Rightarrow> ImdbClient \<Rightarrow> 'net \<Rightarrow> (ImdbClient \<times> error option) outcome \<times> 'net" where
  "WatchlistIdScrape L c s =
     and_then (doRequest L c \<lparr>Method = http_MethodGet, Path = imdbPathWatchlist, Body = None\<rparr> s)
       (\<lambda>r s'. case r of
          Inl err \<Rightarrow> (Returns (c, Some (Wraps ''failure trying to scrape imdb watchlist id'' err)), s')
        | Inr res \<Rightarrow>
            (deferred (DrainBody (res_Body res))
               (case NewDocumentFromReader (res_Body res) of
                  Inl err \<Rightarrow>
                    Returns (c, Some (Wraps ''failure creating goquery document from imdb response'' err))
                | Inr doc \<Rightarrow>
                    (case Attr (doc (''meta[property='' @ [CHR 0x27] @ ''pageId'' @ [CHR 0x27] @ '']'')) ''content'' of
                       None \<Rightarrow>
                         Returns (c, Some (Errorf ''failure scraping imdb profile: watchlist id not found''))
                     | Some watchlistId \<Rightarrow>
                         Returns (c\<lparr>config := (config c)\<lparr>WatchlistId := watchlistId\<rparr>\<rparr>, None))), s'))"

definition Hydrate ::
  "'net go_lib \<Rightarrow> ImdbClient \<Rightarrow> 'net \<Rightarrow> (ImdbClient \<times> error option) outcome \<times> 'net" where
  "Hydrate L c s =
     and_then (if UserId (config c) = [] \<or> UserId (config c) = ''scrape''
               then UserIdScrape L c s else (Returns (c, None), s))
       (\<lambda>(c1, err1) s1. case err1 of
          Some err \<Rightarrow> (Returns (c1, Some (Wraps ''failure scraping imdb user id'' err)), s1)
        | None \<Rightarrow>
            and_then (WatchlistIdScrape L c1 s1)
              (\<lambda>(c2, err2) s2. case err2 of
                 Some err \<Rightarrow> (Returns (c2, Some (Wraps ''failure scraping imdb watchlist id'' err)), s2)
               | None \<Rightarrow> (Returns (c2, None), s2)))"

definition NewImdbClient ::
  "'net go_lib \<Rightarrow> ImdbConfig \<Rightarrow> 'net \<Rightarrow> (error + ImdbClient) outcome \<times> 'net" where
  "NewImdbClient L cfg s =
     (case setupCookieJar L cfg of
        Inl err \<Rightarrow> (Returns (Inl err), s)
      | Inr jar \<Rightarrow>
          and_then (Hydrate L \<lparr>endpoint = imdbPathBase, client_Jar = jar, config = cfg\<rparr> s)
            (\<lambda>(client, err1) s'. case err1 of
               Some err \<Rightarrow> (Returns (Inl (Wraps ''failure hydrating imdb client'' err)), s')
             | None \<Rightarrow> (Returns (Inr client), s')))"

subsection \<open>A library and a network for closed examples\<close>

text \<open>
  The network state is the list of the requests sent so far; the server answers a
  request by the cookie jar and the URL. URLs parse to themselves, a request can
  always be built, and a media type is read only in the form
  \<^verbatim>\<open>attachment; filename=NAME\<close>. Strings that are not ASCII are left as they are.
\<close>

definition mock_ParseMediaType :: "string \<Rightarrow> string \<times> (string \<times> string) list \<times> error option" where
  "mock_ParseMediaType v =
     (if take 21 v = ''attachment; filename='' \<and> 21 < length v
      then (''attachment'', [(''filename'', drop 21 v)], None)
      else ([], [], Some (LibError ''mime: invalid media parameter'')))"

definition mock_lib :: "(cookiejar \<Rightarrow> string \<Rightarrow> response option \<times> error option) \<Rightarrow> (request list) go_lib" where
  "mock_lib server =
     \<lparr>url_Parse = Inr,
      cookiejar_New = None,
      http_NewRequest = (\<lambda>m u. Inr \<lparr>req_Method = m, req_URL = u, req_Body = None\<rparr>),
      client_Do = (\<lambda>jar req log. (server jar (req_URL req), log @ [req])),
      mime_ParseMediaType = mock_ParseMediaType,
      FieldsFunc_IsSpace = (\<lambda>s. [s]),
      Map_ToLower = (\<lambda>s. s)\<rparr>"

definition no_server :: "cookiejar \<Rightarrow> string \<Rightarrow> response option \<times> error option" where
  "no_server jar u = (None, Some (LibError ''dial tcp: connection refused''))"

definition html_page :: "string \<Rightarrow> document \<Rightarrow> response" where
  "html_page u doc =
     \<lparr>StatusCode = 200, Header = [(''Content-Type'', ''text/html'')],
      res_Body = \<lparr>NewDocumentFromReader = Inr doc, ReadAll = Inr [], Close = None\<rparr>,
      Request_URL = u\<rparr>"

definition csv_export :: "string \<Rightarrow> (string \<times> string) list \<Rightarrow> string list list \<Rightarrow> response" where
  "csv_export u h csvData =
     \<lparr>StatusCode = 200, Header = h,
      res_Body = \<lparr>NewDocumentFromReader = Inr (\<lambda>sel. []), ReadAll = Inr csvData, Close = None\<rparr>,
      Request_URL = u\<rparr>"

definition status_page :: "string \<Rightarrow> nat \<Rightarrow> response" where
  "status_page u code =
     \<lparr>StatusCode = code, Header = [],
      res_Body = \<lparr>NewDocumentFromReader = Inr (\<lambda>sel. []), ReadAll = Inr [], Close = None\<rparr>,
      Request_URL = u\<rparr>"

definition list_header :: "string list" where
  "list_header = [''Position'', ''Const'', ''Created'', ''Modified'', ''Description'', ''Title'', ''URL'', ''Title Type'']"

definition rating_header :: "string list" where
  "rating_header = [''Const'', ''Your Rating'', ''Date Rated'', ''Title'', ''URL'', ''Title Type'']"

definition mock_imdb :: "cookiejar \<Rightarrow> string \<Rightarrow> response option \<times> error option" where
  "mock_imdb jar u =
     (if jar \<noteq> [(''https://www.imdb.com'', [(''at-main'', ''token-a''), (''ubid-main'', ''token-u'')])]
      then (Some (status_page u 403), None)
      else if u = ''https://www.imdb.com/profile''
      then (Some (html_page u (\<lambda>sel. if sel = ''.user-profile.userId''
                                       then [[(''class'', ''user-profile userId''), (''data-userid'', ''ur12345'')]]
                                       else [])), None)
      else if u = ''https://www.imdb.com/watchlist''
      then (Some (html_page u (\<lambda>sel. if sel = ''meta[property='' @ [CHR 0x27] @ ''pageId'' @ [CHR 0x27] @ '']''
                                       then [[(''property'', ''pageId''), (''content'', ''ls99999'')]]
                                       else [])), None)
      else if u = ''https://www.imdb.com/user/ur12345/lists''
      then (Some (html_page u (\<lambda>sel. if sel = ''.user-list''
                                       then [[(''class'', ''user-list''), (''id'', ''ls1'')],
                                             [(''class'', ''user-list''), (''id'', ''ls2'')]]
                                       else [])), None)
      else if u = ''https://www.imdb.com/user/ur777/lists''
      then (Some (html_page u (\<lambda>sel. if sel = ''.user-list''
                                       then [[(''class'', ''user-list''), (''id'', ''ls3'')]]
                                       else [])), None)
      else if u = ''https://www.imdb.com/list/ls2/export''
      then (Some (csv_export u [(''Content-Disposition'', ''attachment; filename=Sci-Fi Favourites!.csv'')]
                    [list_header,
                     [''1'', ''tt0083658'', ''2020-01-01'', ''2020-01-01'', [], ''Blade Runner'', ''https://www.imdb.com/title/tt0083658/'', ''movie'']]), None)
      else if u = ''https://www.imdb.com/list/ls3/export''
      then (Some (status_page u 403), None)
      else if u = ''https://www.imdb.com/list/ls99999/export''
      then (Some (csv_export u []
                    [list_header,
                     [''1'', ''tt0111161'', ''2020-01-01'', ''2020-01-01'', [], ''The Shawshank Redemption'', ''https://www.imdb.com/title/tt0111161/'', ''movie'']]), None)
      else if u = ''https://www.imdb.com/user/ur12345/ratings/export''
      then (Some (csv_export u []
                    [rating_header, [''tt0111161'', ''9'', ''2020-05-01'', [], [], ''movie'']]), None)
      else (Some (status_page u 404), None))"

definition mock_config :: "string \<Rightarrow> ImdbConfig" where
  "mock_config userId = \<lparr>CookieAtMain = ''token-a'', CookieUbidMain = ''token-u'', UserId = userId, WatchlistId = []\<rparr>"

definition mock_client :: "string \<Rightarrow> string \<Rightarrow> ImdbClient" where
  "mock_client userId watchlistId =
     \<lparr>endpoint = imdbPathBase,
      client_Jar = [(''https://www.imdb.com'', [(''at-main'', ''token-a''), (''ubid-main'', ''token-u'')])],
      config = \<lparr>CookieAtMain = ''token-a'', CookieUbidMain = ''token-u'', UserId = userId, WatchlistId = watchlistId\<rparr>\<rparr>"

subsection \<open>Vocabulary of the statements\<close>

text \<open>The bytes of the class \<^verbatim>\<open>[a-z0-9-]\<close>.\<close>

definition slug_alphabet :: string where
  "slug_alphabet = ''abcdefghijklmnopqrstuvwxyz0123456789-''"

text \<open>
  A record of the ratings export that the loop gets through: columns 0 to 5 exist,
  column 1 is an integer for \<^verbatim>\<open>strconv.Atoi\<close> and column 2 a date for \<^verbatim>\<open>time.Parse\<close>.
\<close>

definition rating_record_ok :: "string list \<Rightarrow> bool" where
  "rating_record_ok record =
     (6 \<le> length record \<and> \<not> isl (strconv_Atoi (record ! 1))
      \<and> \<not> isl (time_Parse_2006_01_02 (record ! 2)))"

text \<open>The error that \<^verbatim>\<open>doRequest\<close> makes of the status 403 for a request.\<close>

definition authorization_error :: "request \<Rightarrow> error" where
  "authorization_error req =
     ImdbError (req_Method req) (req_URL req) 403
       ''imdb authorization failure - update the imdb cookie values''"

section \<open>Unfolding the examples\<close>

lemmas mock_defs = mock_lib_def mock_imdb_def mock_client_def html_page_def csv_export_def status_page_def
  mock_ParseMediaType_def list_header_def rating_header_def no_server_def
lemmas const_defs = imdbCookieNameAtMain_def imdbCookieNameUbidMain_def imdbHeaderKeyContentDisposition_def imdbPathBase_def
  imdbPathListExport_def imdbPathLists_def imdbPathProfile_def imdbPathRatingsExport_def imdbPathWatchlist_def http_MethodGet_def
  resourceTypeList_def resourceTypeWatchlist_def resourceTypeRating_def nil_dereference_def index_out_of_range_def

section \<open>The slug derivation\<close>

lemma slug_codes:
  "(n::nat) = 45 \<or> (97 \<le> n \<and> n \<le> 122) \<or> (48 \<le> n \<and> n \<le> 57) \<Longrightarrow>
   n \<in> {45, 48, 49, 50, 51, 52, 53, 54, 55, 56, 57, 97, 98, 99, 100, 101, 102, 103, 104, 105,
         106, 107, 108, 109, 110, 111, 112, 113, 114, 115, 116, 117, 118, 119, 120, 121, 122}"
  by simp arith

lemma slug_byte_alphabet:
  assumes "slug_byte c"
  shows "c \<in> set slug_alphabet"
proof -
  let ?n = "of_char c :: nat"
  have "?n \<in> {45, 48, 49, 50, 51, 52, 53, 54, 55, 56, 57, 97, 98, 99, 100, 101, 102, 103, 104,
              105, 106, 107, 108, 109, 110, 111, 112, 113, 114, 115, 116, 117, 118, 119, 120,
              121, 122}"
    using assms unfolding slug_byte_def Let_def by (rule slug_codes)
  then have "char_of ?n \<in> set slug_alphabet"
    unfolding slug_alphabet_def
    by (elim insertE emptyE) (simp_all only:, code_simp+)
  then show ?thesis by simp
qed

lemma slug_byte_plain:
  "slug_byte c \<Longrightarrow> (of_char c :: nat) < 128 \<and> \<not> asciiSpace c \<and> lower_byte c = c"
  by (auto simp: slug_byte_def asciiSpace_def lower_byte_def Let_def)

lemma ascii_fields_one_word:
  "\<forall>c\<in>set cs. \<not> asciiSpace c \<Longrightarrow> ascii_fields w cs = (if w @ cs = [] then [] else [w @ cs])"
  by (induction cs arbitrary: w) auto

lemma FormatTraktListName_of_slug:
  assumes "\<forall>c\<in>set y. slug_byte c"
  shows "FormatTraktListName L y = y"
proof -
  have ascii: "isASCII y"
    using assms slug_byte_plain by (auto simp: isASCII_def list_all_iff)
  have "strings_Fields L y = (if y = [] then [] else [y])"
    using assms slug_byte_plain ascii by (simp add: strings_Fields_def ascii_fields_one_word)
  then have joined: "strings_Join (strings_Fields L y) ''-'' = y"
    by simp
  have lower: "map lower_byte y = y"
    using assms slug_byte_plain by (simp add: map_idI)
  show ?thesis
    unfolding FormatTraktListName_def joined Let_def strings_ToLower_def
      ReplaceAllString_nonslug_empty_def
    using ascii lower assms by simp
qed

lemma FormatTraktListName_slug_bytes: "\<forall>c\<in>set (FormatTraktListName L x). slug_byte c"
  by (simp add: FormatTraktListName_def ReplaceAllString_nonslug_empty_def Let_def)

lemma FormatTraktListName_sci_fi:
  "FormatTraktListName L ''Sci-Fi Favourites!'' = ''sci-fi-favourites''"
  unfolding FormatTraktListName_def strings_Fields_def strings_ToLower_def
    ReplaceAllString_nonslug_empty_def
  by code_simp

text \<open>
  Claim C7. \<^verbatim>\<open>FormatTraktListName\<close> is a function of its argument (and of the Unicode
  tables of the library); applying it to its own result changes nothing, and every
  byte of its result is a lower-case letter, a digit or a hyphen. Both hold for every
  input string and for every behaviour of the library on strings that are not ASCII.
\<close>

theorem FormatTraktListName_idempotent:
  "FormatTraktListName L (FormatTraktListName L x) = FormatTraktListName L x
   \<and> set (FormatTraktListName L x) \<subseteq> set slug_alphabet"
proof
  show "FormatTraktListName L (FormatTraktListName L x) = FormatTraktListName L x"
    by (rule FormatTraktListName_of_slug) (rule FormatTraktListName_slug_bytes)
  show "set (FormatTraktListName L x) \<subseteq> set slug_alphabet"
    using FormatTraktListName_slug_bytes [of L x] slug_byte_alphabet by blast
qed

theorem FormatTraktListName_idempotent_witness:
  "FormatTraktListName (mock_lib no_server) (FormatTraktListName (mock_lib no_server) ''Top 10: Sci-Fi'')
     = ''top-10-sci-fi''
   \<and> set ''top-10-sci-fi'' \<subseteq> set slug_alphabet"
proof -
  have v: "FormatTraktListName (mock_lib no_server) ''Top 10: Sci-Fi'' = ''top-10-sci-fi''"
    unfolding FormatTraktListName_def strings_Fields_def strings_ToLower_def
      ReplaceAllString_nonslug_empty_def
    by code_simp
  show ?thesis
    using FormatTraktListName_idempotent [of "mock_lib no_server" "''Top 10: Sci-Fi''"]
    unfolding v by simp
qed

text \<open>
  Claim C9. The two examples of the slug derivation: the name is split at white space,
  the words are joined with hyphens and put in lower case, and every byte outside
  \<^verbatim>\<open>[-a-z0-9]\<close> is dropped. Both inputs are ASCII, so the result does not depend on the
  library.
\<close>

theorem FormatTraktListName_examples:
  "FormatTraktListName L ''Sci-Fi Favourites!'' = ''sci-fi-favourites''
   \<and> FormatTraktListName L ''  My   List  '' = ''my-list''"
  unfolding FormatTraktListName_def strings_Fields_def strings_ToLower_def
    ReplaceAllString_nonslug_empty_def
  by code_simp

section \<open>The export parser\<close>

lemma list_records_pos:
  "0 < i \<Longrightarrow> list_records i csvData imdbList =
     (if \<forall>record\<in>set csvData. 8 \<le> length record
      then Returns (imdbList @ map (\<lambda>record. \<lparr>Id_item = record ! 1, TitleType = record ! 7,
                                       Rating = None, RatingDate = None\<rparr>) csvData)
      else Panics index_out_of_range)"
  by (induction csvData arbitrary: i imdbList) (auto simp: index_def)

lemma list_records_0:
  "list_records 0 csvData [] =
     (if \<forall>record\<in>set (drop 1 csvData). 8 \<le> length record
      then Returns (map (\<lambda>record. \<lparr>Id_item = record ! 1, TitleType = record ! 7,
                                       Rating = None, RatingDate = None\<rparr>) (drop 1 csvData))
      else Panics index_out_of_range)"
  by (cases csvData) (simp_all add: list_records_pos)

lemma strings_Split_nonempty: "strings_Split s sep \<noteq> []"
  by (induction s) (auto split: list.splits)

lemma index_Split_0: "\<exists>name. index (strings_Split s sep) 0 = Returns name"
  using strings_Split_nonempty [of s sep] by (simp add: index_def)

lemma readResponse_list_Returns:
  assumes "ReadAll (res_Body res) = Inr csvData"
    and "readResponse L res resourceTypeList = Returns (name, items)"
  shows "items = map (\<lambda>record. \<lparr>Id_item = record ! 1, TitleType = record ! 7,
                                   Rating = None, RatingDate = None\<rparr>) (drop 1 csvData)
         \<and> (\<forall>record\<in>set (drop 1 csvData). 8 \<le> length record)"
  using assms
  by (auto simp: readResponse_def list_records_0 Let_def
           split: if_splits prod.splits outcome.splits)

lemma readResponse_list_total:
  assumes "ReadAll (res_Body res) = Inr csvData"
    and "\<forall>record\<in>set (drop 1 csvData). 8 \<le> length record"
    and "Header_Get (Header res) imdbHeaderKeyContentDisposition = h" and "h \<noteq> []"
    and "mime_ParseMediaType L h = (mediatype, params, None)" and "params \<noteq> []"
  shows "\<exists>name. readResponse L res resourceTypeList =
           Returns (Some name, map (\<lambda>record. \<lparr>Id_item = record ! 1, TitleType = record ! 7,
                                   Rating = None, RatingDate = None\<rparr>) (drop 1 csvData))"
proof -
  obtain name where n: "index (strings_Split (case map_of params ''filename'' of None \<Rightarrow> [] | Some v \<Rightarrow> v) CHR ''.'') 0 = Returns name"
    using index_Split_0 by blast
  show ?thesis
    using assms n by (simp add: readResponse_def list_records_0)
qed


text \<open>
  Claim C8. In list mode the record at index 0 never reaches the output, whatever it
  holds, and the items are the later records in order, one item each, with the id of
  column 1, the title type of column 7 and neither rating nor date. The function
  returns them when every later record has the eight columns and the
  \<^verbatim>\<open>Content-Disposition\<close> header parses; a shorter record makes \<^verbatim>\<open>record[7]\<close> (or
  \<^verbatim>\<open>record[1]\<close>) panic.
\<close>

theorem readResponse_list_mode:
  assumes "ReadAll (res_Body res) = Inr csvData"
  shows "(\<forall>name items. readResponse L res resourceTypeList = Returns (name, items) \<longrightarrow>
            items = map (\<lambda>record. \<lparr>Id_item = record ! 1, TitleType = record ! 7,
                                     Rating = None, RatingDate = None\<rparr>) (drop 1 csvData)
            \<and> length items = length csvData - 1
            \<and> (\<forall>record\<in>set (drop 1 csvData). 8 \<le> length record))
         \<and> ((\<forall>record\<in>set (drop 1 csvData). 8 \<le> length record)
              \<and> Header_Get (Header res) imdbHeaderKeyContentDisposition \<noteq> []
              \<and> snd (snd (mime_ParseMediaType L
                             (Header_Get (Header res) imdbHeaderKeyContentDisposition))) = None
              \<and> fst (snd (mime_ParseMediaType L
                             (Header_Get (Header res) imdbHeaderKeyContentDisposition))) \<noteq> []
             \<longrightarrow> (\<exists>name. readResponse L res resourceTypeList =
                    Returns (Some name,
                      map (\<lambda>record. \<lparr>Id_item = record ! 1, TitleType = record ! 7,
                                      Rating = None, RatingDate = None\<rparr>) (drop 1 csvData))))"
proof (intro conjI allI impI)
  fix name items
  assume r: "readResponse L res resourceTypeList = Returns (name, items)"
  from readResponse_list_Returns [OF assms r]
  show "items = map (\<lambda>record. \<lparr>Id_item = record ! 1, TitleType = record ! 7,
                                     Rating = None, RatingDate = None\<rparr>) (drop 1 csvData)"
    and "\<forall>record\<in>set (drop 1 csvData). 8 \<le> length record"
    by simp_all
  then show "length items = length csvData - 1" by simp
next
  let ?h = "Header_Get (Header res) imdbHeaderKeyContentDisposition"
  assume a: "(\<forall>record\<in>set (drop 1 csvData). 8 \<le> length record) \<and> ?h \<noteq> []
             \<and> snd (snd (mime_ParseMediaType L ?h)) = None
             \<and> fst (snd (mime_ParseMediaType L ?h)) \<noteq> []"
  obtain mediatype params err where p: "mime_ParseMediaType L ?h = (mediatype, params, err)"
    by (cases "mime_ParseMediaType L ?h") auto
  with a have "err = None" and "params \<noteq> []" by simp_all
  with p a assms show "\<exists>name. readResponse L res resourceTypeList =
                    Returns (Some name,
                      map (\<lambda>record. \<lparr>Id_item = record ! 1, TitleType = record ! 7,
                                      Rating = None, RatingDate = None\<rparr>) (drop 1 csvData))"
    using readResponse_list_total [of res csvData ?h L mediatype params] by simp
qed

theorem readResponse_list_mode_witness:
  "\<exists>name. readResponse (mock_lib no_server)
      (csv_export ''https://www.imdb.com/list/ls2/export''
         [(''Content-Disposition'', ''attachment; filename=Heist.csv'')]
         [[''7'', ''tt0000000'', ''a'', ''b'', ''c'', ''d'', ''e'', ''movie''],
          [''1'', ''tt0083658'', ''2020-01-01'', ''2020-01-01'', [], ''Blade Runner'', ''u'', ''movie''],
          [''2'', ''tt0944947'', ''2020-01-02'', ''2020-01-02'', [], ''Game of Thrones'', ''u'', ''tvSeries'']])
      resourceTypeList
    = Returns (Some name,
        [\<lparr>Id_item = ''tt0083658'', TitleType = ''movie'', Rating = None, RatingDate = None\<rparr>,
         \<lparr>Id_item = ''tt0944947'', TitleType = ''tvSeries'', Rating = None, RatingDate = None\<rparr>])"
proof -
  let ?csv = "[[''7'', ''tt0000000'', ''a'', ''b'', ''c'', ''d'', ''e'', ''movie''],
          [''1'', ''tt0083658'', ''2020-01-01'', ''2020-01-01'', [], ''Blade Runner'', ''u'', ''movie''],
          [''2'', ''tt0944947'', ''2020-01-02'', ''2020-01-02'', [], ''Game of Thrones'', ''u'', ''tvSeries'']]"
  let ?res = "csv_export ''https://www.imdb.com/list/ls2/export''
         [(''Content-Disposition'', ''attachment; filename=Heist.csv'')] ?csv"
  have r: "ReadAll (res_Body ?res) = Inr ?csv" by (simp add: csv_export_def)
  show ?thesis
    using readResponse_list_mode [OF r, of "mock_lib no_server"]
    by (simp add: csv_export_def Header_Get_def imdbHeaderKeyContentDisposition_def
          mock_lib_def mock_ParseMediaType_def)
qed

lemma rating_records_ok:
  "0 < i \<Longrightarrow> \<forall>record\<in>set csvData. rating_record_ok record \<Longrightarrow>
   rating_records i csvData imdbList =
     Returns (imdbList @ map (\<lambda>record. \<lparr>Id_item = record ! 0, TitleType = record ! 5,
                 Rating = Some (projr (strconv_Atoi (record ! 1))),
                 RatingDate = Some (projr (time_Parse_2006_01_02 (record ! 2)))\<rparr>) csvData)"
  by (induction csvData arbitrary: i imdbList)
     (auto simp: index_def rating_record_ok_def split: sum.splits)

lemma rating_records_Returns:
  "0 < i \<Longrightarrow> rating_records i csvData imdbList = Returns items \<Longrightarrow>
   \<forall>record\<in>set csvData. rating_record_ok record"
  by (induction csvData arbitrary: i imdbList)
     (auto simp: index_def rating_record_ok_def split: sum.splits if_splits)

lemma rating_records_append:
  "0 < i \<Longrightarrow> \<forall>record\<in>set good. rating_record_ok record \<Longrightarrow>
   rating_records i (good @ rest) imdbList =
     rating_records (i + length good) rest
       (imdbList @ map (\<lambda>record. \<lparr>Id_item = record ! 0, TitleType = record ! 5,
                 Rating = Some (projr (strconv_Atoi (record ! 1))),
                 RatingDate = Some (projr (time_Parse_2006_01_02 (record ! 2)))\<rparr>) good)"
  by (induction good arbitrary: i imdbList)
     (auto simp: index_def rating_record_ok_def split: sum.splits)

lemma rating_records_bad_rating:
  "0 < i \<Longrightarrow> 2 \<le> length record \<Longrightarrow> isl (strconv_Atoi (record ! 1)) \<Longrightarrow>
   rating_records i (record # rest) imdbList = Fatal ''error parsing imdb rating value''"
  by (auto simp: index_def split: sum.splits)

lemma rating_records_bad_date:
  "0 < i \<Longrightarrow> 3 \<le> length record \<Longrightarrow> \<not> isl (strconv_Atoi (record ! 1)) \<Longrightarrow>
   isl (time_Parse_2006_01_02 (record ! 2)) \<Longrightarrow>
   rating_records i (record # rest) imdbList = Fatal ''error parsing imdb rating date''"
  by (auto simp: index_def split: sum.splits)

lemma rating_records_0: "rating_records 0 csvData [] = rating_records 1 (drop 1 csvData) []"
  by (cases csvData) simp_all

lemma readResponse_rating:
  "ReadAll (res_Body res) = Inr csvData \<Longrightarrow>
   readResponse L res resourceTypeRating =
     bind_outcome (rating_records 1 (drop 1 csvData) []) (\<lambda>imdbList. Returns (None, imdbList))"
  by (simp add: readResponse_def rating_records_0 resourceTypeRating_def resourceTypeList_def
           split: outcome.splits)

lemma strconv_Atoi_9: "strconv_Atoi ''9'' = Inr 9"
  unfolding strconv_Atoi_def by code_simp

lemma time_Parse_2020_05_01:
  "time_Parse_2006_01_02 ''2020-05-01'' = Inr \<lparr>Year = 2020, Month = 5, Day = 1\<rparr>"
  unfolding time_Parse_2006_01_02_def by code_simp

lemma readResponse_rating_Returns:
  assumes "ReadAll (res_Body res) = Inr csvData"
    and "readResponse L res resourceTypeRating = Returns (name, items)"
  shows "name = None
         \<and> items = map (\<lambda>record. \<lparr>Id_item = record ! 0, TitleType = record ! 5,
                          Rating = Some (projr (strconv_Atoi (record ! 1))),
                          RatingDate = Some (projr (time_Parse_2006_01_02 (record ! 2)))\<rparr>)
                     (drop 1 csvData)
         \<and> (\<forall>record\<in>set (drop 1 csvData). rating_record_ok record)"
proof -
  note rr = readResponse_rating [OF assms(1), of L]
  from assms(2) obtain l where l: "rating_records 1 (drop 1 csvData) [] = Returns l"
    by (auto simp: rr split: outcome.splits elim: bind_outcome.elims)
  then have all: "\<forall>record\<in>set (drop 1 csvData). rating_record_ok record"
    using rating_records_Returns [of 1 "drop 1 csvData" "[]" l] by simp
  with assms(2) show ?thesis
    by (simp add: rr rating_records_ok)
qed

text \<open>
  Claim C4. In rating mode, with the records \<open>csvData\<close> of the body: if the function
  returns, then it returns no name and one item for each record after the first, with
  the id of column 0, the rating that \<^verbatim>\<open>strconv.Atoi\<close> reads in column 1, the date that
  \<^verbatim>\<open>time.Parse("2006-01-02", _)\<close> reads in column 2 and the title type of column 5, and
  it does return when every such record has the six columns and both parse. The first
  record whose column 1 is not an integer ends the process with \<^verbatim>\<open>log.Fatalf\<close>, and
  so does the first one whose column 2 is not a date. The record of the example gives
  the item of the example.
\<close>

theorem readResponse_rating_mode:
  assumes "ReadAll (res_Body res) = Inr csvData"
  shows "(\<forall>name items. readResponse L res resourceTypeRating = Returns (name, items) \<longrightarrow>
            name = None
            \<and> items = map (\<lambda>record. \<lparr>Id_item = record ! 0, TitleType = record ! 5,
                             Rating = Some (projr (strconv_Atoi (record ! 1))),
                             RatingDate = Some (projr (time_Parse_2006_01_02 (record ! 2)))\<rparr>)
                        (drop 1 csvData)
            \<and> (\<forall>record\<in>set (drop 1 csvData). rating_record_ok record))
         \<and> ((\<forall>record\<in>set (drop 1 csvData). rating_record_ok record) \<longrightarrow>
              readResponse L res resourceTypeRating =
                Returns (None,
                  map (\<lambda>record. \<lparr>Id_item = record ! 0, TitleType = record ! 5,
                             Rating = Some (projr (strconv_Atoi (record ! 1))),
                             RatingDate = Some (projr (time_Parse_2006_01_02 (record ! 2)))\<rparr>)
                      (drop 1 csvData)))
         \<and> (\<forall>good record rest.
               drop 1 csvData = good @ record # rest
               \<and> (\<forall>g\<in>set good. rating_record_ok g) \<and> 2 \<le> length record
               \<and> isl (strconv_Atoi (record ! 1)) \<longrightarrow>
               readResponse L res resourceTypeRating = Fatal ''error parsing imdb rating value'')
         \<and> (\<forall>good record rest.
               drop 1 csvData = good @ record # rest
               \<and> (\<forall>g\<in>set good. rating_record_ok g) \<and> 3 \<le> length record
               \<and> \<not> isl (strconv_Atoi (record ! 1)) \<and> isl (time_Parse_2006_01_02 (record ! 2)) \<longrightarrow>
               readResponse L res resourceTypeRating = Fatal ''error parsing imdb rating date'')
         \<and> (\<forall>header. csvData = [header, [''tt0111161'', ''9'', ''2020-05-01'', [], [], ''movie'']] \<longrightarrow>
               readResponse L res resourceTypeRating =
                 Returns (None, [\<lparr>Id_item = ''tt0111161'', TitleType = ''movie'', Rating = Some 9,
                                   RatingDate = Some \<lparr>Year = 2020, Month = 5, Day = 1\<rparr>\<rparr>]))"
proof -
  let ?item = "\<lambda>record. \<lparr>Id_item = record ! 0, TitleType = record ! 5,
                             Rating = Some (projr (strconv_Atoi (record ! 1))),
                             RatingDate = Some (projr (time_Parse_2006_01_02 (record ! 2)))\<rparr>"
  note rr = readResponse_rating [OF assms, of L]
  have ok: "readResponse L res resourceTypeRating = Returns (None, map ?item (drop 1 csvData))"
    if "\<forall>record\<in>set (drop 1 csvData). rating_record_ok record"
    using that by (simp add: rr rating_records_ok)
  have ret: "name = None \<and> items = map ?item (drop 1 csvData)
             \<and> (\<forall>record\<in>set (drop 1 csvData). rating_record_ok record)"
    if "readResponse L res resourceTypeRating = Returns (name, items)" for name items
    using readResponse_rating_Returns [OF assms that] .
  have bad_rating: "readResponse L res resourceTypeRating = Fatal ''error parsing imdb rating value''"
    if "drop 1 csvData = good @ rcd # rest" "\<forall>g\<in>set good. rating_record_ok g"
       "2 \<le> length rcd" "isl (strconv_Atoi (rcd ! 1))" for good rcd rest
  proof -
    have "rating_records 1 (good @ rcd # rest) [] =
          rating_records (1 + length good) (rcd # rest) ([] @ map ?item good)"
      using that(2) by (intro rating_records_append) simp_all
    also have "\<dots> = Fatal ''error parsing imdb rating value''"
      using that(3,4) by (intro rating_records_bad_rating) simp_all
    finally show ?thesis
      by (simp only: rr that(1) bind_outcome.simps)
  qed
  have bad_date: "readResponse L res resourceTypeRating = Fatal ''error parsing imdb rating date''"
    if "drop 1 csvData = good @ rcd # rest" "\<forall>g\<in>set good. rating_record_ok g"
       "3 \<le> length rcd" "\<not> isl (strconv_Atoi (rcd ! 1))"
       "isl (time_Parse_2006_01_02 (rcd ! 2))" for good rcd rest
  proof -
    have "rating_records 1 (good @ rcd # rest) [] =
          rating_records (1 + length good) (rcd # rest) ([] @ map ?item good)"
      using that(2) by (intro rating_records_append) simp_all
    also have "\<dots> = Fatal ''error parsing imdb rating date''"
      using that(3,4,5) by (intro rating_records_bad_date) simp_all
    finally show ?thesis
      by (simp only: rr that(1) bind_outcome.simps)
  qed
  have example: "readResponse L res resourceTypeRating =
                 Returns (None, [\<lparr>Id_item = ''tt0111161'', TitleType = ''movie'', Rating = Some 9,
                                   RatingDate = Some \<lparr>Year = 2020, Month = 5, Day = 1\<rparr>\<rparr>])"
    if "csvData = [header, [''tt0111161'', ''9'', ''2020-05-01'', [], [], ''movie'']]" for header
    using that by (simp add: rr index_def strconv_Atoi_9 time_Parse_2020_05_01)
  show ?thesis
    using ok ret bad_rating bad_date example by blast
qed


lemma strconv_Atoi_10: "strconv_Atoi ''10'' = Inr 10"
  unfolding strconv_Atoi_def by code_simp

lemma time_Parse_2024_02_29:
  "time_Parse_2006_01_02 ''2024-02-29'' = Inr \<lparr>Year = 2024, Month = 2, Day = 29\<rparr>"
  unfolding time_Parse_2006_01_02_def by code_simp

theorem readResponse_rating_mode_witness:
  "readResponse (mock_lib no_server)
     (csv_export ''https://www.imdb.com/user/ur12345/ratings/export'' []
        [rating_header,
         [''tt0111161'', ''9'', ''2020-05-01'', [], [], ''movie''],
         [''tt0944947'', ''10'', ''2024-02-29'', ''Game of Thrones'', ''u'', ''tvSeries'', ''extra'']])
     resourceTypeRating
   = Returns (None,
       [\<lparr>Id_item = ''tt0111161'', TitleType = ''movie'', Rating = Some 9,
          RatingDate = Some \<lparr>Year = 2020, Month = 5, Day = 1\<rparr>\<rparr>,
        \<lparr>Id_item = ''tt0944947'', TitleType = ''tvSeries'', Rating = Some 10,
          RatingDate = Some \<lparr>Year = 2024, Month = 2, Day = 29\<rparr>\<rparr>])"
proof -
  let ?csv = "[rating_header,
         [''tt0111161'', ''9'', ''2020-05-01'', [], [], ''movie''],
         [''tt0944947'', ''10'', ''2024-02-29'', ''Game of Thrones'', ''u'', ''tvSeries'', ''extra'']]"
  let ?res = "csv_export ''https://www.imdb.com/user/ur12345/ratings/export'' [] ?csv"
  have r: "ReadAll (res_Body ?res) = Inr ?csv" by (simp add: csv_export_def)
  have ok: "\<forall>record\<in>set (drop 1 ?csv). rating_record_ok record"
    by (simp add: rating_record_ok_def strconv_Atoi_9 strconv_Atoi_10
          time_Parse_2020_05_01 time_Parse_2024_02_29)
  have "readResponse (mock_lib no_server) ?res resourceTypeRating =
          Returns (None,
            map (\<lambda>record. \<lparr>Id_item = record ! 0, TitleType = record ! 5,
                             Rating = Some (projr (strconv_Atoi (record ! 1))),
                             RatingDate = Some (projr (time_Parse_2006_01_02 (record ! 2)))\<rparr>)
                (drop 1 ?csv))"
    using readResponse_rating_mode [OF r, of "mock_lib no_server", THEN conjunct2, THEN conjunct1] ok
    by (rule mp)
  then show ?thesis
    by (simp add: strconv_Atoi_9 strconv_Atoi_10 time_Parse_2020_05_01 time_Parse_2024_02_29)
qed

lemma readResponse_Returns_ReadAll:
  "readResponse L res resType = Returns v \<Longrightarrow> \<exists>csvData. ReadAll (res_Body res) = Inr csvData"
  by (cases "ReadAll (res_Body res)") (simp_all add: readResponse_def)

lemma readResponse_Returns_resType:
  "readResponse L res resType = Returns v \<Longrightarrow>
   resType = resourceTypeList \<or> resType = resourceTypeRating"
  by (auto simp: readResponse_def split: sum.splits if_splits)

text \<open>
  Claim C5. Every item that \<^verbatim>\<open>readResponse\<close> returns has a rating exactly when it
  has a rating date: in list mode it has neither, in rating mode it has both.
  \<^verbatim>\<open>readResponse\<close> is the only place of the file that builds an item.
\<close>

theorem rating_and_date_together:
  assumes "readResponse L res resType = Returns (name, items)" and "item \<in> set items"
  shows "(Rating item = None \<longleftrightarrow> RatingDate item = None)
         \<and> (resType = resourceTypeList \<longrightarrow> Rating item = None \<and> RatingDate item = None)
         \<and> (resType = resourceTypeRating \<longrightarrow> Rating item \<noteq> None \<and> RatingDate item \<noteq> None)"
proof -
  obtain csvData where csv: "ReadAll (res_Body res) = Inr csvData"
    using readResponse_Returns_ReadAll [OF assms(1)] by blast
  have diff: "resourceTypeList \<noteq> resourceTypeRating"
    by (simp add: resourceTypeList_def resourceTypeRating_def)
  consider (list) "resType = resourceTypeList" | (rating) "resType = resourceTypeRating"
    using readResponse_Returns_resType [OF assms(1)] by blast
  then show ?thesis
  proof cases
    case list
    with readResponse_list_Returns [OF csv, of L name items] assms(1)
    have "items = map (\<lambda>record. \<lparr>Id_item = record ! 1, TitleType = record ! 7,
                                     Rating = None, RatingDate = None\<rparr>) (drop 1 csvData)"
      by simp
    with assms(2) have "Rating item = None \<and> RatingDate item = None"
      by auto
    with list diff show ?thesis by auto
  next
    case rating
    with readResponse_rating_Returns [OF csv, of L name items] assms(1)
    have "items = map (\<lambda>record. \<lparr>Id_item = record ! 0, TitleType = record ! 5,
                          Rating = Some (projr (strconv_Atoi (record ! 1))),
                          RatingDate = Some (projr (time_Parse_2006_01_02 (record ! 2)))\<rparr>)
                     (drop 1 csvData)"
      by simp
    with assms(2) have "Rating item \<noteq> None \<and> RatingDate item \<noteq> None"
      by auto
    with rating diff show ?thesis by auto
  qed
qed

theorem rating_and_date_together_witness:
  "readResponse (mock_lib no_server)
     (csv_export ''https://www.imdb.com/user/ur12345/ratings/export'' []
        [rating_header, [''tt0111161'', ''9'', ''2020-05-01'', [], [], ''movie'']])
     resourceTypeRating
   = Returns (None, [\<lparr>Id_item = ''tt0111161'', TitleType = ''movie'', Rating = Some 9,
                      RatingDate = Some \<lparr>Year = 2020, Month = 5, Day = 1\<rparr>\<rparr>])
   \<and> (Rating \<lparr>Id_item = ''tt0111161'', TitleType = ''movie'', Rating = Some 9,
                RatingDate = Some \<lparr>Year = 2020, Month = 5, Day = 1\<rparr>\<rparr> = None
        \<longleftrightarrow> RatingDate \<lparr>Id_item = ''tt0111161'', TitleType = ''movie'', Rating = Some 9,
                RatingDate = Some \<lparr>Year = 2020, Month = 5, Day = 1\<rparr>\<rparr> = None)"
proof -
  let ?res = "csv_export ''https://www.imdb.com/user/ur12345/ratings/export'' []
        [rating_header, [''tt0111161'', ''9'', ''2020-05-01'', [], [], ''movie'']]"
  let ?item = "\<lparr>Id_item = ''tt0111161'', TitleType = ''movie'', Rating = Some 9,
                RatingDate = Some \<lparr>Year = 2020, Month = 5, Day = 1\<rparr>\<rparr>"
  have r: "ReadAll (res_Body ?res) =
           Inr [rating_header, [''tt0111161'', ''9'', ''2020-05-01'', [], [], ''movie'']]"
    by (simp add: csv_export_def)
  have v: "readResponse (mock_lib no_server) ?res resourceTypeRating = Returns (None, [?item])"
    by (simp add: readResponse_rating [OF r] index_def strconv_Atoi_9 time_Parse_2020_05_01)
  have m: "?item \<in> set [?item]" by simp
  from rating_and_date_together [OF v m] v show ?thesis by blast
qed

text \<open>
  The operations pass on the items of \<^verbatim>\<open>readResponse\<close>: the items of a list, of the
  watchlist and of the pairs of \<^verbatim>\<open>ListsScrape\<close> have neither field, the items of the
  ratings have both.
\<close>

lemma readResponse_list_items:
  assumes "readResponse L res resourceTypeList = Returns (name, items)" and "item \<in> set items"
  shows "Rating item = None \<and> RatingDate item = None"
proof -
  obtain csvData where csv: "ReadAll (res_Body res) = Inr csvData"
    using readResponse_Returns_ReadAll [OF assms(1)] by blast
  from readResponse_list_Returns [OF csv assms(1)] assms(2) show ?thesis by auto
qed

lemma readResponse_rating_items:
  assumes "readResponse L res resourceTypeRating = Returns (name, items)" and "item \<in> set items"
  shows "Rating item \<noteq> None \<and> RatingDate item \<noteq> None"
proof -
  obtain csvData where csv: "ReadAll (res_Body res) = Inr csvData"
    using readResponse_Returns_ReadAll [OF assms(1)] by blast
  from readResponse_rating_Returns [OF csv assms(1)] assms(2) show ?thesis by auto
qed

lemma deferred_Returns: "deferred d r = Returns v \<Longrightarrow> r = Returns v"
  by (auto simp: deferred_def split: outcome.splits)

lemma and_then_Returns:
  "and_then r f = (Returns v, s') \<Longrightarrow> \<exists>a s1. r = (Returns a, s1) \<and> f a s1 = (Returns v, s')"
proof -
  assume a: "and_then r f = (Returns v, s')"
  obtain x s1 where r: "r = (x, s1)" by (cases r) auto
  with a show ?thesis by (cases x) auto
qed

lemma bind_outcome_Returns:
  "bind_outcome r f = Returns v \<Longrightarrow> \<exists>a. r = Returns a \<and> f a = Returns v"
  by (cases r) auto

lemma ListItemsGet_items:
  assumes "ListItemsGet L c listId s = (Returns (name, items, err), s')" and "item \<in> set items"
  shows "Rating item = None \<and> RatingDate item = None"
proof -
  from assms(1) obtain a s1 where
    f: "(case a of
          Inl err \<Rightarrow> (Returns (None, [], Some (Wraps (''failure trying to retrieve imdb list '' @ listId) err)), s1)
        | Inr res \<Rightarrow>
            (deferred (DrainBody (res_Body res))
               (if StatusCode res = 404
                then Returns (None, [], Some (ResourceNotFoundError resourceTypeList (Some listId)))
                else bind_outcome (readResponse L res resourceTypeList)
                       (\<lambda>(listName, list). Returns (listName, list, None))), s1))
        = (Returns (name, items, err), s')"
    using and_then_Returns [OF assms(1) [unfolded ListItemsGet_def Let_def]] by blast
  show ?thesis
  proof (cases a)
    case (Inl e)
    with f assms(2) show ?thesis by simp
  next
    case (Inr res)
    with f have d: "(if StatusCode res = 404
                then Returns (None, [], Some (ResourceNotFoundError resourceTypeList (Some listId)))
                else bind_outcome (readResponse L res resourceTypeList)
                       (\<lambda>(listName, list). Returns (listName, list, None))) = Returns (name, items, err)"
      by (auto dest: deferred_Returns)
    show ?thesis
    proof (cases "StatusCode res = 404")
      case True
      with d assms(2) show ?thesis by simp
    next
      case False
      with d obtain n where "readResponse L res resourceTypeList = Returns (n, items)"
        by (auto dest!: bind_outcome_Returns)
      then show ?thesis using assms(2) by (rule readResponse_list_items)
    qed
  qed
qed


lemma WatchlistGet_items:
  assumes "WatchlistGet L c s = (Returns (name, items, err), s')" and "item \<in> set items"
  shows "Rating item = None \<and> RatingDate item = None"
proof -
  from and_then_Returns [OF assms(1) [unfolded WatchlistGet_def Let_def]] obtain a s1 where
    f: "(case a of
          Inl err \<Rightarrow>
            (Returns (None, [], Some (Wraps (''failure trying to retrieve imdb watchlist ''
                                               @ WatchlistId (config c)) err)), s1)
        | Inr res \<Rightarrow>
            (deferred (DrainBody (res_Body res))
               (if StatusCode res = 404
                then Returns (None, [], Some (ResourceNotFoundError resourceTypeWatchlist
                                                (Some (WatchlistId (config c)))))
                else bind_outcome (readResponse L res resourceTypeList)
                       (\<lambda>(ignored, list). Returns (Some (WatchlistId (config c)), list, None))), s1))
        = (Returns (name, items, err), s')"
    by blast
  show ?thesis
  proof (cases a)
    case (Inl e)
    with f assms(2) show ?thesis by simp
  next
    case (Inr res)
    with f have d: "(if StatusCode res = 404
                then Returns (None, [], Some (ResourceNotFoundError resourceTypeWatchlist
                                                (Some (WatchlistId (config c)))))
                else bind_outcome (readResponse L res resourceTypeList)
                       (\<lambda>(ignored, list). Returns (Some (WatchlistId (config c)), list, None)))
              = Returns (name, items, err)"
      by (auto dest: deferred_Returns)
    show ?thesis
    proof (cases "StatusCode res = 404")
      case True
      with d assms(2) show ?thesis by simp
    next
      case False
      with d obtain n where "readResponse L res resourceTypeList = Returns (n, items)"
        by (auto dest!: bind_outcome_Returns)
      then show ?thesis using assms(2) by (rule readResponse_list_items)
    qed
  qed
qed

lemma RatingsGet_items:
  assumes "RatingsGet L c s = (Returns (items, err), s')" and "item \<in> set items"
  shows "Rating item \<noteq> None \<and> RatingDate item \<noteq> None"
proof -
  from and_then_Returns [OF assms(1) [unfolded RatingsGet_def]] obtain a s1 where
    f: "(case a of
          Inl err \<Rightarrow> (Returns ([], Some (Wraps ''failure trying to retrieve imdb ratings'' err)), s1)
        | Inr res \<Rightarrow>
            (deferred (DrainBody (res_Body res))
               (if StatusCode res = 404
                then Returns ([], Some (ResourceNotFoundError resourceTypeRating None))
                else bind_outcome (readResponse L res resourceTypeRating)
                       (\<lambda>(ignored, ratings). Returns (ratings, None))), s1))
        = (Returns (items, err), s')"
    by blast
  show ?thesis
  proof (cases a)
    case (Inl e)
    with f assms(2) show ?thesis by simp
  next
    case (Inr res)
    with f have d: "(if StatusCode res = 404
                then Returns ([], Some (ResourceNotFoundError resourceTypeRating None))
                else bind_outcome (readResponse L res resourceTypeRating)
                       (\<lambda>(ignored, ratings). Returns (ratings, None)))
              = Returns (items, err)"
      by (auto dest: deferred_Returns)
    show ?thesis
    proof (cases "StatusCode res = 404")
      case True
      with d assms(2) show ?thesis by simp
    next
      case False
      with d obtain n where "readResponse L res resourceTypeRating = Returns (n, items)"
        by (auto dest!: bind_outcome_Returns)
      then show ?thesis using assms(2) by (rule readResponse_rating_items)
    qed
  qed
qed

lemma ListsScrape_Each_items:
  assumes "ListsScrape_Each L c els dps s = (Returns out, s')"
    and "\<forall>dp\<in>set dps. \<forall>item\<in>set (ImdbList dp). Rating item = None \<and> RatingDate item = None"
  shows "\<forall>dp\<in>set out. \<forall>item\<in>set (ImdbList dp). Rating item = None \<and> RatingDate item = None"
  using assms
proof (induction els arbitrary: dps s)
  case Nil
  then show ?case by simp
next
  case (Cons el els)
  show ?case
  proof (cases "Attr [el] ''id''")
    case None
    with Cons show ?thesis by simp
  next
    case (Some listId)
    obtain r s1 where g: "ListItemsGet L c listId s = (r, s1)"
      by (cases "ListItemsGet L c listId s") auto
    show ?thesis
    proof (cases r)
      case (Returns v)
      obtain name items err where v: "v = (name, items, err)" by (cases v) auto
      have it: "\<forall>item\<in>set items. Rating item = None \<and> RatingDate item = None"
        using ListItemsGet_items [of L c listId s name items err s1] g Returns v by blast
      show ?thesis
      proof (cases "errors_As_ResourceNotFoundError err")
        case True
        with Cons.prems Some g Returns v
        have "ListsScrape_Each L c els dps s1 = (Returns out, s')" by simp
        then show ?thesis using Cons.prems(2) by (rule Cons.IH)
      next
        case False
        show ?thesis
        proof (cases name)
          case None
          with Cons.prems(1) Some g Returns v False show ?thesis by simp
        next
          case (Some n)
          let ?dps = "dps @ [\<lparr>ImdbList = items, ImdbListId = listId, ImdbListName = n,
                               TraktListId = FormatTraktListName L n\<rparr>]"
          from Cons.prems(1) \<open>Attr [el] ''id'' = Some listId\<close> g Returns v False Some
          have e: "ListsScrape_Each L c els ?dps s1 = (Returns out, s')" by simp
          have "\<forall>dp\<in>set ?dps. \<forall>item\<in>set (ImdbList dp). Rating item = None \<and> RatingDate item = None"
            using Cons.prems(2) it by auto
          with e show ?thesis by (rule Cons.IH)
        qed
      qed
    next
      case (Panics m)
      with Cons.prems(1) Some g show ?thesis by simp
    next
      case (Fatal m)
      with Cons.prems(1) Some g show ?thesis by simp
    qed
  qed
qed


lemma ListsScrape_items:
  assumes "ListsScrape L c s = (Returns (dps, err), s')"
  shows "\<forall>dp\<in>set dps. \<forall>item\<in>set (ImdbList dp). Rating item = None \<and> RatingDate item = None"
proof -
  from and_then_Returns [OF assms [unfolded ListsScrape_def]] obtain a s1 where
    f: "(case a :: error + response of
          Inl err \<Rightarrow> (Returns ([], Some (Wraps ''failure trying to scrape imdb lists'' err)), s1)
        | Inr res \<Rightarrow>
            (case NewDocumentFromReader (res_Body res) of
               Inl err \<Rightarrow>
                 (deferred (DrainBody (res_Body res))
                    (Returns ([], Some (Wraps ''failure creating goquery document from imdb response'' err))),
                  s1)
             | Inr doc \<Rightarrow>
                 (case ListsScrape_Each L c (doc ''.user-list'') [] s1 of
                    (r, s'') \<Rightarrow>
                      (deferred (DrainBody (res_Body res))
                         (bind_outcome r (\<lambda>dps. Returns (dps, None))), s''))))
        = (Returns (dps, err), s')"
    by blast
  show ?thesis
  proof (cases a)
    case (Inl e)
    with f show ?thesis by simp
  next
    case (Inr res)
    note res = this
    show ?thesis
    proof (cases "NewDocumentFromReader (res_Body res)")
      case (Inl e)
      with f res show ?thesis by (auto dest: deferred_Returns)
    next
      case (Inr doc)
      obtain r s2 where e: "ListsScrape_Each L c (doc ''.user-list'') [] s1 = (r, s2)"
        by (cases "ListsScrape_Each L c (doc ''.user-list'') [] s1") auto
      with f res Inr have "bind_outcome r (\<lambda>dps. Returns (dps, None)) = Returns (dps, err)"
        and "s2 = s'"
        by (auto dest: deferred_Returns)
      then have "r = Returns dps" by (auto dest!: bind_outcome_Returns)
      with e have "ListsScrape_Each L c (doc ''.user-list'') [] s1 = (Returns dps, s2)" by simp
      then show ?thesis by (rule ListsScrape_Each_items) simp
    qed
  qed
qed

section \<open>The request\<close>

lemma doRequest_answered:
  assumes "http_NewRequest L (Method p) (endpoint c @ Path p) = Inr req"
    and "Body p = None"
    and "client_Do L (client_Jar c) req s = ((Some res, None), s')"
  shows "doRequest L c p s =
     (Returns (if StatusCode res = 200 \<or> StatusCode res = 404 then Inr res
               else if StatusCode res = 403
               then Inl (ImdbError (req_Method req) (req_URL req) 403
                      ''imdb authorization failure - update the imdb cookie values'')
               else Inl (ImdbError (req_Method req) (req_URL req) (StatusCode res)
                      (''unexpected status code '' @ Sprintf_d (StatusCode res)))), s')"
  using assms by (simp add: doRequest_def)

text \<open>
  A request that cannot be built, and a body that cannot be marshalled, are returned
  as errors that wrap the cause, and nothing is sent.
\<close>

lemma doRequest_NewRequest_fails:
  "http_NewRequest L (Method p) (endpoint c @ Path p) = Inl err \<Longrightarrow>
   doRequest L c p s =
     (Returns (Inl (Wraps (''failure creating http request '' @ Method p @ '' ''
                             @ endpoint c @ Path p) err)), s)"
  by (simp add: doRequest_def)

lemma doRequest_Marshal_fails:
  "http_NewRequest L (Method p) (endpoint c @ Path p) = Inr req \<Longrightarrow> Body p = Some (Inl err) \<Longrightarrow>
   doRequest L c p s =
     (Returns (Inl (Wraps (''failure marshalling http request body for '' @ Method p @ '' ''
                             @ req_URL req) err)), s)"
  by (simp add: doRequest_def)

lemma doRequest_Do_fails_nil_response:
  "http_NewRequest L (Method p) (endpoint c @ Path p) = Inr req \<Longrightarrow> Body p = None \<Longrightarrow>
   client_Do L (client_Jar c) req s = ((None, Some err), s') \<Longrightarrow>
   doRequest L c p s = (Panics nil_dereference, s')"
  by (simp add: doRequest_def)

lemma doRequest_Do_fails_with_response:
  "http_NewRequest L (Method p) (endpoint c @ Path p) = Inr req \<Longrightarrow> Body p = None \<Longrightarrow>
   client_Do L (client_Jar c) req s = ((Some res, Some err), s') \<Longrightarrow>
   doRequest L c p s =
     (Returns (Inl (Wraps (''failure sending http request '' @ Method p @ '' '' @ Request_URL res)
                       err)), s')"
  by (simp add: doRequest_def)

text \<open>
  Claim C6. The claim does not hold of the code where the request cannot be sent and
  \<^verbatim>\<open>c.client.Do\<close> returns no response, as it does for a transport failure: the
  error message is built from \<^verbatim>\<open>res.Request.URL\<close> and the \<^verbatim>\<open>nil\<close> response is
  dereferenced (\<open>doRequest_Do_fails_nil_response\<close>). Here the server cannot be reached:
  \<^verbatim>\<open>doRequest\<close> panics after the request has been sent, and returns no error.
\<close>

theorem doRequest_send_failure_panics:
  "doRequest (mock_lib no_server) (mock_client ''ur12345'' ''ls99999'')
     \<lparr>Method = ''GET'', Path = ''/profile'', Body = None\<rparr> []
   = (Panics nil_dereference,
      [\<lparr>req_Method = ''GET'', req_URL = ''https://www.imdb.com/profile'', req_Body = None\<rparr>])"
  by (simp add: doRequest_def mock_defs const_defs)

section \<open>The status 403\<close>

lemma doRequest_403:
  assumes "http_NewRequest L (Method p) (endpoint c @ Path p) = Inr req"
    and "Body p = None"
    and "client_Do L (client_Jar c) req s = ((Some res, None), s')"
    and "StatusCode res = 403"
  shows "doRequest L c p s =
     (Returns (Inl (ImdbError (req_Method req) (req_URL req) 403
                      ''imdb authorization failure - update the imdb cookie values'')), s')"
  using assms by (simp add: doRequest_answered [where req = req and res = res and s' = s'])

text \<open>
  When the server answers 403, each operation returns the error of \<^verbatim>\<open>doRequest\<close>
  wrapped once, after the one request.
\<close>

lemma operations_surface_403:
  assumes "\<And>path. http_NewRequest L http_MethodGet (endpoint c @ path) = Inr (mk path)"
    and "\<And>path. client_Do L (client_Jar c) (mk path) s = ((Some (res path), None), s' path)"
    and "\<And>path. StatusCode (res path) = 403"
  shows "ListItemsGet L c listId s =
           (Returns (None, [], Some (Wraps (''failure trying to retrieve imdb list '' @ listId)
              (authorization_error (mk (imdbPathListExport listId))))), s' (imdbPathListExport listId))"
    and "WatchlistGet L c s =
           (Returns (None, [], Some (Wraps (''failure trying to retrieve imdb watchlist '' @ WatchlistId (config c))
              (authorization_error (mk (imdbPathListExport (WatchlistId (config c))))))),
            s' (imdbPathListExport (WatchlistId (config c))))"
    and "RatingsGet L c s =
           (Returns ([], Some (Wraps ''failure trying to retrieve imdb ratings''
              (authorization_error (mk (imdbPathRatingsExport (UserId (config c))))))),
            s' (imdbPathRatingsExport (UserId (config c))))"
    and "UserIdScrape L c s =
           (Returns (c, Some (Wraps ''failure trying to scrape imdb user id''
              (authorization_error (mk imdbPathProfile)))), s' imdbPathProfile)"
    and "WatchlistIdScrape L c s =
           (Returns (c, Some (Wraps ''failure trying to scrape imdb watchlist id''
              (authorization_error (mk imdbPathWatchlist)))), s' imdbPathWatchlist)"
    and "ListsScrape L c s =
           (Returns ([], Some (Wraps ''failure trying to scrape imdb lists''
              (authorization_error (mk (imdbPathLists (UserId (config c))))))),
            s' (imdbPathLists (UserId (config c))))"
proof -
  have d: "doRequest L c \<lparr>Method = http_MethodGet, Path = path, Body = None\<rparr> s =
             (Returns (Inl (authorization_error (mk path))), s' path)" for path
    unfolding authorization_error_def
    by (rule doRequest_403 [where res = "res path"]) (simp_all add: assms)
  show "ListItemsGet L c listId s =
           (Returns (None, [], Some (Wraps (''failure trying to retrieve imdb list '' @ listId)
              (authorization_error (mk (imdbPathListExport listId))))), s' (imdbPathListExport listId))"
    by (simp add: ListItemsGet_def d Let_def)
  show "WatchlistGet L c s =
           (Returns (None, [], Some (Wraps (''failure trying to retrieve imdb watchlist '' @ WatchlistId (config c))
              (authorization_error (mk (imdbPathListExport (WatchlistId (config c))))))),
            s' (imdbPathListExport (WatchlistId (config c))))"
    by (simp add: WatchlistGet_def d Let_def)
  show "RatingsGet L c s =
           (Returns ([], Some (Wraps ''failure trying to retrieve imdb ratings''
              (authorization_error (mk (imdbPathRatingsExport (UserId (config c))))))),
            s' (imdbPathRatingsExport (UserId (config c))))"
    by (simp add: RatingsGet_def d)
  show "UserIdScrape L c s =
           (Returns (c, Some (Wraps ''failure trying to scrape imdb user id''
              (authorization_error (mk imdbPathProfile)))), s' imdbPathProfile)"
    by (simp add: UserIdScrape_def d)
  show "WatchlistIdScrape L c s =
           (Returns (c, Some (Wraps ''failure trying to scrape imdb watchlist id''
              (authorization_error (mk imdbPathWatchlist)))), s' imdbPathWatchlist)"
    by (simp add: WatchlistIdScrape_def d)
  show "ListsScrape L c s =
           (Returns ([], Some (Wraps ''failure trying to scrape imdb lists''
              (authorization_error (mk (imdbPathLists (UserId (config c))))))),
            s' (imdbPathLists (UserId (config c))))"
    by (simp add: ListsScrape_def d)
qed

lemma ListsScrape_Each_error_panics:
  assumes "Attr [el] ''id'' = Some listId"
    and "ListItemsGet L c listId s = (Returns (None, items, Some err), s')"
    and "\<not> As_ResourceNotFoundError err"
  shows "ListsScrape_Each L c (el # els) dps s = (Panics nil_dereference, s')"
  using assms by (simp add: errors_As_ResourceNotFoundError_def)

text \<open>
  Claim C1. The claim does not hold of the code for the lists that \<^verbatim>\<open>ListsScrape\<close>
  fetches: the function given to \<^verbatim>\<open>Each\<close> tests the error of \<^verbatim>\<open>ListItemsGet\<close> for
  \<^verbatim>\<open>ResourceNotFoundError\<close> only and then dereferences the \<^verbatim>\<open>nil\<close> list name
  (\<open>ListsScrape_Each_error_panics\<close>). Here the lists page of the user names the list
  \<^verbatim>\<open>ls3\<close> and the server answers 403 for its export: \<^verbatim>\<open>ListItemsGet\<close> returns the
  authorization error, and \<^verbatim>\<open>ListsScrape\<close> panics instead of returning it.
\<close>

theorem ListsScrape_forbidden_list_panics:
  "ListItemsGet (mock_lib mock_imdb) (mock_client ''ur777'' ''ls99999'') ''ls3'' []
     = (Returns (None, [], Some (Wraps ''failure trying to retrieve imdb list ls3''
          (ImdbError ''GET'' ''https://www.imdb.com/list/ls3/export'' 403
             ''imdb authorization failure - update the imdb cookie values''))),
        [\<lparr>req_Method = ''GET'', req_URL = ''https://www.imdb.com/list/ls3/export'', req_Body = None\<rparr>])
   \<and> ListsScrape (mock_lib mock_imdb) (mock_client ''ur777'' ''ls99999'') []
     = (Panics nil_dereference,
        [\<lparr>req_Method = ''GET'', req_URL = ''https://www.imdb.com/user/ur777/lists'', req_Body = None\<rparr>,
         \<lparr>req_Method = ''GET'', req_URL = ''https://www.imdb.com/list/ls3/export'', req_Body = None\<rparr>])"
  by (simp add: ListsScrape_def ListItemsGet_def doRequest_def deferred_def DrainBody_def Attr_def
        errors_As_ResourceNotFoundError_def mock_defs const_defs Let_def)

section \<open>Lists that are not found\<close>

lemma ListItemsGet_404:
  assumes "http_NewRequest L http_MethodGet (endpoint c @ imdbPathListExport listId) = Inr req"
    and "client_Do L (client_Jar c) req s = ((Some res, None), s')"
    and "StatusCode res = 404" and "Close (res_Body res) = None"
  shows "ListItemsGet L c listId s =
           (Returns (None, [], Some (ResourceNotFoundError resourceTypeList (Some listId))), s')"
proof -
  have "doRequest L c \<lparr>Method = http_MethodGet, Path = imdbPathListExport listId, Body = None\<rparr> s
        = (Returns (Inr res), s')"
    using assms(1,2,3) by (simp add: doRequest_answered [where req = req and res = res and s' = s'])
  then show ?thesis
    using assms(3,4) by (simp add: ListItemsGet_def deferred_def DrainBody_def)
qed

text \<open>
  Claim C2. When the server answers 404 for the export of a list (and the body of the
  answer closes without error), \<^verbatim>\<open>ListItemsGet\<close> returns a
  \<^verbatim>\<open>ResourceNotFoundError\<close> of kind list with the id of the list; and the function that
  \<^verbatim>\<open>ListsScrape\<close> runs on each element, at an element with that id, adds no pair and
  goes on with the elements after it as if the element had not been there.
\<close>

theorem not_found_list_is_skipped:
  assumes "http_NewRequest L http_MethodGet (endpoint c @ imdbPathListExport listId) = Inr req"
    and "client_Do L (client_Jar c) req s = ((Some res, None), s')"
    and "StatusCode res = 404" and "Close (res_Body res) = None"
  shows "ListItemsGet L c listId s =
           (Returns (None, [], Some (ResourceNotFoundError resourceTypeList (Some listId))), s')
         \<and> (\<forall>el els dps. Attr [el] ''id'' = Some listId \<longrightarrow>
               ListsScrape_Each L c (el # els) dps s = ListsScrape_Each L c els dps s')"
  using ListItemsGet_404 [OF assms]
  by (simp add: errors_As_ResourceNotFoundError_def)

theorem not_found_list_is_skipped_witness:
  "ListItemsGet (mock_lib mock_imdb) (mock_client ''ur12345'' ''ls99999'') ''ls1'' []
     = (Returns (None, [], Some (ResourceNotFoundError ''list'' (Some ''ls1''))),
        [\<lparr>req_Method = ''GET'', req_URL = ''https://www.imdb.com/list/ls1/export'', req_Body = None\<rparr>])
   \<and> ListsScrape_Each (mock_lib mock_imdb) (mock_client ''ur12345'' ''ls99999'')
        [[(''class'', ''user-list''), (''id'', ''ls1'')], [(''class'', ''user-list''), (''id'', ''ls2'')]] [] []
     = (Returns [\<lparr>ImdbList = [\<lparr>Id_item = ''tt0083658'', TitleType = ''movie'',
                                   Rating = None, RatingDate = None\<rparr>],
                   ImdbListId = ''ls2'', ImdbListName = ''Sci-Fi Favourites!'',
                   TraktListId = ''sci-fi-favourites''\<rparr>],
        [\<lparr>req_Method = ''GET'', req_URL = ''https://www.imdb.com/list/ls1/export'', req_Body = None\<rparr>,
         \<lparr>req_Method = ''GET'', req_URL = ''https://www.imdb.com/list/ls2/export'', req_Body = None\<rparr>])"
proof -
  let ?L = "mock_lib mock_imdb"
  let ?c = "mock_client ''ur12345'' ''ls99999''"
  let ?req = "\<lparr>req_Method = ''GET'', req_URL = ''https://www.imdb.com/list/ls1/export'', req_Body = None\<rparr>"
  let ?res = "status_page ''https://www.imdb.com/list/ls1/export'' 404"
  have h1: "http_NewRequest ?L http_MethodGet (endpoint ?c @ imdbPathListExport ''ls1'') = Inr ?req"
    by (simp add: mock_defs const_defs)
  have h2: "client_Do ?L (client_Jar ?c) ?req [] = ((Some ?res, None), [?req])"
    by (simp add: mock_defs const_defs)
  have h3: "StatusCode ?res = 404" by (simp add: status_page_def)
  have h4: "Close (res_Body ?res) = None" by (simp add: status_page_def)
  note t = not_found_list_is_skipped [OF h1 h2 h3 h4]
  have a: "Attr [[(''class'', ''user-list''), (''id'', ''ls1'')]] ''id'' = Some ''ls1''"
    by (simp add: Attr_def)
  have step: "ListsScrape_Each ?L ?c
        [[(''class'', ''user-list''), (''id'', ''ls1'')], [(''class'', ''user-list''), (''id'', ''ls2'')]] [] []
      = ListsScrape_Each ?L ?c [[(''class'', ''user-list''), (''id'', ''ls2'')]] [] [?req]"
    using t a by blast
  have rest: "ListsScrape_Each ?L ?c [[(''class'', ''user-list''), (''id'', ''ls2'')]] [] [?req]
      = (Returns [\<lparr>ImdbList = [\<lparr>Id_item = ''tt0083658'', TitleType = ''movie'',
                                   Rating = None, RatingDate = None\<rparr>],
                   ImdbListId = ''ls2'', ImdbListName = ''Sci-Fi Favourites!'',
                   TraktListId = ''sci-fi-favourites''\<rparr>],
        [?req, \<lparr>req_Method = ''GET'', req_URL = ''https://www.imdb.com/list/ls2/export'', req_Body = None\<rparr>])"
    by (simp add: FormatTraktListName_sci_fi Attr_def ListItemsGet_def doRequest_def deferred_def DrainBody_def
          readResponse_def Header_Get_def index_def errors_As_ResourceNotFoundError_def
          mock_defs const_defs)
  show ?thesis
    using t step rest by (simp add: resourceTypeList_def)
qed

text \<open>
  The whole of \<^verbatim>\<open>ListsScrape\<close> on a lists page that names \<^verbatim>\<open>ls1\<close>, whose export is
  not found, and \<^verbatim>\<open>ls2\<close>: three requests, and the one pair of \<^verbatim>\<open>ls2\<close>.
\<close>

lemma ListsScrape_example:
  "ListsScrape (mock_lib mock_imdb) (mock_client ''ur12345'' ''ls99999'') []
     = (Returns ([\<lparr>ImdbList = [\<lparr>Id_item = ''tt0083658'', TitleType = ''movie'',
                                   Rating = None, RatingDate = None\<rparr>],
                   ImdbListId = ''ls2'', ImdbListName = ''Sci-Fi Favourites!'',
                   TraktListId = ''sci-fi-favourites''\<rparr>], None),
        [\<lparr>req_Method = ''GET'', req_URL = ''https://www.imdb.com/user/ur12345/lists'', req_Body = None\<rparr>,
         \<lparr>req_Method = ''GET'', req_URL = ''https://www.imdb.com/list/ls1/export'', req_Body = None\<rparr>,
         \<lparr>req_Method = ''GET'', req_URL = ''https://www.imdb.com/list/ls2/export'', req_Body = None\<rparr>])"
    by (simp add: FormatTraktListName_sci_fi ListsScrape_def Attr_def ListItemsGet_def doRequest_def deferred_def DrainBody_def
          readResponse_def Header_Get_def index_def errors_As_ResourceNotFoundError_def
          mock_defs const_defs Let_def)

section \<open>The watchlist\<close>

lemma readResponse_list_bad_header:
  assumes "Header_Get (Header res) imdbHeaderKeyContentDisposition = h"
    and "h = [] \<or> snd (snd (mime_ParseMediaType L h)) \<noteq> None
         \<or> fst (snd (mime_ParseMediaType L h)) = []"
  shows "readResponse L res resourceTypeList =
     (case ReadAll (res_Body res) of
        Inl err \<Rightarrow> Fatal ''error reading imdb response''
      | Inr csvData \<Rightarrow>
          if \<forall>record\<in>set (drop 1 csvData). 8 \<le> length record
          then Fatal (if h = [] then ''error reading header Content-Disposition from imdb response''
                      else ''error parsing media type from header'')
          else Panics index_out_of_range)"
  using assms
  by (cases "mime_ParseMediaType L h")
     (auto simp: readResponse_def list_records_0 split: sum.splits)

lemma WatchlistGet_Returns_name:
  assumes "WatchlistGet L c s = (Returns (name, items, None), s')"
  shows "name = Some (WatchlistId (config c))"
proof -
  let ?p = "\<lparr>Method = http_MethodGet, Path = imdbPathListExport (WatchlistId (config c)), Body = None\<rparr>"
  obtain r s1 where d: "doRequest L c ?p s = (r, s1)" by (cases "doRequest L c ?p s") auto
  show ?thesis
  proof (cases r)
    case (Returns v)
    show ?thesis
    proof (cases v)
      case (Inl err)
      with assms d Returns show ?thesis by (simp add: WatchlistGet_def)
    next
      case (Inr res)
      with assms d Returns show ?thesis
        by (cases "readResponse L res resourceTypeList"; cases "Close (res_Body res)")
           (auto simp: WatchlistGet_def deferred_def DrainBody_def split: if_splits)
    qed
  next
    case (Panics m)
    with assms d show ?thesis by (simp add: WatchlistGet_def)
  next
    case (Fatal m)
    with assms d show ?thesis by (simp add: WatchlistGet_def)
  qed
qed

lemma WatchlistGet_bad_header:
  assumes "http_NewRequest L http_MethodGet
             (endpoint c @ imdbPathListExport (WatchlistId (config c))) = Inr req"
    and "client_Do L (client_Jar c) req s = ((Some res, None), s')"
    and "StatusCode res = 200"
    and "Header_Get (Header res) imdbHeaderKeyContentDisposition = h"
    and "h = [] \<or> snd (snd (mime_ParseMediaType L h)) \<noteq> None
         \<or> fst (snd (mime_ParseMediaType L h)) = []"
  shows "(\<exists>m. WatchlistGet L c s = (Fatal m, s'))
         \<or> (WatchlistGet L c s = (Panics index_out_of_range, s')
             \<and> (\<exists>csvData. ReadAll (res_Body res) = Inr csvData
                   \<and> (\<exists>record\<in>set (drop 1 csvData). length record < 8)))"
proof -
  have d: "doRequest L c \<lparr>Method = http_MethodGet,
             Path = imdbPathListExport (WatchlistId (config c)), Body = None\<rparr> s
        = (Returns (Inr res), s')"
    using assms(1,2,3) by (simp add: doRequest_answered [where req = req and res = res and s' = s'])
  show ?thesis
    using assms(3)
    by (cases "ReadAll (res_Body res)"; cases "Close (res_Body res)")
       (auto simp: WatchlistGet_def d readResponse_list_bad_header [OF assms(4,5)]
          deferred_def DrainBody_def not_le)
qed


lemma WatchlistGet_bad_header_Fatal:
  assumes "http_NewRequest L http_MethodGet
             (endpoint c @ imdbPathListExport (WatchlistId (config c))) = Inr req"
    and "client_Do L (client_Jar c) req s = ((Some res, None), s')"
    and "StatusCode res = 200"
    and "Header_Get (Header res) imdbHeaderKeyContentDisposition = h"
    and "h = [] \<or> snd (snd (mime_ParseMediaType L h)) \<noteq> None
         \<or> fst (snd (mime_ParseMediaType L h)) = []"
    and "ReadAll (res_Body res) = Inr csvData"
    and "\<forall>record\<in>set (drop 1 csvData). 8 \<le> length record"
  shows "WatchlistGet L c s =
           (Fatal (if h = [] then ''error reading header Content-Disposition from imdb response''
                   else ''error parsing media type from header''), s')"
proof -
  have d: "doRequest L c \<lparr>Method = http_MethodGet,
             Path = imdbPathListExport (WatchlistId (config c)), Body = None\<rparr> s
        = (Returns (Inr res), s')"
    using assms(1,2,3) by (simp add: doRequest_answered [where req = req and res = res and s' = s'])
  show ?thesis
    using assms(3,6,7)
    by (simp add: WatchlistGet_def d readResponse_list_bad_header [OF assms(4,5)] deferred_def)
qed

text \<open>
  Claim C10. Whenever \<^verbatim>\<open>WatchlistGet\<close> returns without error, the name it returns is
  the configured watchlist id, not the name of the export. When the server answers 200
  and the \<^verbatim>\<open>Content-Disposition\<close> header is missing, or does not parse, or has no
  parameter, \<^verbatim>\<open>WatchlistGet\<close> does not return: the process ends with \<^verbatim>\<open>log.Fatalf\<close>,
  unless a record of fewer than eight columns has made the loop panic before the
  header is read; with records of eight columns it ends with the message about the
  header.
\<close>

theorem WatchlistGet_ignores_name_needs_header:
  "(\<forall>name items s'. WatchlistGet L c s = (Returns (name, items, None), s') \<longrightarrow>
      name = Some (WatchlistId (config c)))
   \<and> (\<forall>req res s' h.
         http_NewRequest L http_MethodGet
           (endpoint c @ imdbPathListExport (WatchlistId (config c))) = Inr req
         \<and> client_Do L (client_Jar c) req s = ((Some res, None), s')
         \<and> StatusCode res = 200
         \<and> Header_Get (Header res) imdbHeaderKeyContentDisposition = h
         \<and> (h = [] \<or> snd (snd (mime_ParseMediaType L h)) \<noteq> None
              \<or> fst (snd (mime_ParseMediaType L h)) = [])
         \<longrightarrow> ((\<exists>m. WatchlistGet L c s = (Fatal m, s'))
               \<or> (WatchlistGet L c s = (Panics index_out_of_range, s')
                   \<and> (\<exists>csvData. ReadAll (res_Body res) = Inr csvData
                         \<and> (\<exists>record\<in>set (drop 1 csvData). length record < 8))))
              \<and> (\<forall>csvData. ReadAll (res_Body res) = Inr csvData
                     \<and> (\<forall>record\<in>set (drop 1 csvData). 8 \<le> length record) \<longrightarrow>
                   WatchlistGet L c s =
                     (Fatal (if h = []
                             then ''error reading header Content-Disposition from imdb response''
                             else ''error parsing media type from header''), s')))"
proof (intro conjI allI impI)
  fix name items s'
  assume "WatchlistGet L c s = (Returns (name, items, None), s')"
  then show "name = Some (WatchlistId (config c))" by (rule WatchlistGet_Returns_name)
next
  fix req res s' h
  assume a: "http_NewRequest L http_MethodGet
           (endpoint c @ imdbPathListExport (WatchlistId (config c))) = Inr req
         \<and> client_Do L (client_Jar c) req s = ((Some res, None), s')
         \<and> StatusCode res = 200
         \<and> Header_Get (Header res) imdbHeaderKeyContentDisposition = h
         \<and> (h = [] \<or> snd (snd (mime_ParseMediaType L h)) \<noteq> None
              \<or> fst (snd (mime_ParseMediaType L h)) = [])"
  then show "(\<exists>m. WatchlistGet L c s = (Fatal m, s'))
               \<or> (WatchlistGet L c s = (Panics index_out_of_range, s')
                   \<and> (\<exists>csvData. ReadAll (res_Body res) = Inr csvData
                         \<and> (\<exists>record\<in>set (drop 1 csvData). length record < 8)))"
    using WatchlistGet_bad_header [of L c req s res s' h] by blast
  fix csvData
  assume "ReadAll (res_Body res) = Inr csvData
                     \<and> (\<forall>record\<in>set (drop 1 csvData). 8 \<le> length record)"
  with a show "WatchlistGet L c s =
                     (Fatal (if h = []
                             then ''error reading header Content-Disposition from imdb response''
                             else ''error parsing media type from header''), s')"
    using WatchlistGet_bad_header_Fatal [of L c req s res s' h csvData] by blast
qed

theorem WatchlistGet_ignores_name_needs_header_witness:
  "WatchlistGet (mock_lib mock_imdb) (mock_client ''ur12345'' ''ls2'') []
     = (Returns (Some ''ls2'', [\<lparr>Id_item = ''tt0083658'', TitleType = ''movie'',
                                  Rating = None, RatingDate = None\<rparr>], None),
        [\<lparr>req_Method = ''GET'', req_URL = ''https://www.imdb.com/list/ls2/export'', req_Body = None\<rparr>])
   \<and> WatchlistGet (mock_lib mock_imdb) (mock_client ''ur12345'' ''ls99999'') []
     = (Fatal ''error reading header Content-Disposition from imdb response'',
        [\<lparr>req_Method = ''GET'', req_URL = ''https://www.imdb.com/list/ls99999/export'', req_Body = None\<rparr>])"
proof -
  let ?L = "mock_lib mock_imdb"
  let ?c2 = "mock_client ''ur12345'' ''ls2''"
  let ?c = "mock_client ''ur12345'' ''ls99999''"
  let ?req2 = "\<lparr>req_Method = ''GET'', req_URL = ''https://www.imdb.com/list/ls2/export'', req_Body = None\<rparr>"
  let ?req = "\<lparr>req_Method = ''GET'', req_URL = ''https://www.imdb.com/list/ls99999/export'', req_Body = None\<rparr>"
  let ?csv = "[list_header,
                     [''1'', ''tt0111161'', ''2020-01-01'', ''2020-01-01'', [], ''The Shawshank Redemption'', ''https://www.imdb.com/title/tt0111161/'', ''movie'']]"
  let ?res = "csv_export ''https://www.imdb.com/list/ls99999/export'' [] ?csv"
  obtain name where v: "WatchlistGet ?L ?c2 [] =
      (Returns (name, [\<lparr>Id_item = ''tt0083658'', TitleType = ''movie'',
                         Rating = None, RatingDate = None\<rparr>], None), [?req2])"
    by (simp add: WatchlistGet_def doRequest_def deferred_def DrainBody_def
          readResponse_def Header_Get_def index_def mock_defs const_defs)
  have n: "name = Some ''ls2''"
    using WatchlistGet_ignores_name_needs_header [of ?L ?c2 "[]"] v
    by (simp add: mock_client_def)
  have h1: "http_NewRequest ?L http_MethodGet
              (endpoint ?c @ imdbPathListExport (WatchlistId (config ?c))) = Inr ?req"
    by (simp add: mock_defs const_defs)
  have h2: "client_Do ?L (client_Jar ?c) ?req [] = ((Some ?res, None), [?req])"
    by (simp add: mock_defs const_defs)
  have h3: "StatusCode ?res = 200" by (simp add: csv_export_def)
  have h4: "Header_Get (Header ?res) imdbHeaderKeyContentDisposition = []"
    by (simp add: csv_export_def Header_Get_def)
  have h5: "ReadAll (res_Body ?res) = Inr ?csv" by (simp add: csv_export_def)
  have h6: "\<forall>record\<in>set (drop 1 ?csv). 8 \<le> length record" by simp
  have f: "WatchlistGet ?L ?c [] =
             (Fatal ''error reading header Content-Disposition from imdb response'', [?req])"
    using WatchlistGet_ignores_name_needs_header [of ?L ?c "[]", THEN conjunct2, rule_format,
        of ?req ?res "[?req]" "[]", THEN conjunct2, rule_format, of ?csv]
      h1 h2 h3 h4 h5 h6
    by simp
  show ?thesis using v n f by simp
qed

section \<open>The construction of the client\<close>

lemma and_then_wrap:
  "and_then r (\<lambda>(c2, err2) s2. case err2 of
       Some err \<Rightarrow> (Returns (c2, Some (Wraps m err)), s2)
     | None \<Rightarrow> (Returns (c2, None), s2))
   = and_then r (\<lambda>(c2, err2) s2. (Returns (c2, map_option (Wraps m) err2), s2))"
  by (rule arg_cong [where f = "and_then r"]) (auto simp: fun_eq_iff split: option.splits)

text \<open>
  Claim C3, amended. \<^verbatim>\<open>Hydrate\<close> runs \<^verbatim>\<open>UserIdScrape\<close> exactly when the user id of
  the configuration is empty or is \<^verbatim>\<open>scrape\<close>; with any other user id it is
  \<^verbatim>\<open>WatchlistIdScrape\<close> alone, on the client as it was given. \<^verbatim>\<open>WatchlistIdScrape\<close> runs
  whatever the configuration holds, after a user id scrape that returned no error.
  Constructing the client with valid tokens and the user id \<^verbatim>\<open>scrape\<close>, against pages
  with \<^verbatim>\<open>data-userid="ur12345"\<close> and the \<^verbatim>\<open>pageId\<close> content \<^verbatim>\<open>ls99999\<close>, requests the
  profile and the watchlist and gives the identity \<^verbatim>\<open>ur12345\<close>, \<^verbatim>\<open>ls99999\<close>.
\<close>

theorem Hydrate_policy:
  "(UserId (config c) \<noteq> [] \<and> UserId (config c) \<noteq> ''scrape'' \<longrightarrow>
      Hydrate L c s =
        and_then (WatchlistIdScrape L c s)
          (\<lambda>(c2, err2) s2.
             (Returns (c2, map_option (Wraps ''failure scraping imdb watchlist id'') err2), s2)))
   \<and> (UserId (config c) = [] \<or> UserId (config c) = ''scrape'' \<longrightarrow>
      Hydrate L c s =
        and_then (UserIdScrape L c s)
          (\<lambda>(c1, err1) s1. case err1 of
             Some err \<Rightarrow> (Returns (c1, Some (Wraps ''failure scraping imdb user id'' err)), s1)
           | None \<Rightarrow>
               and_then (WatchlistIdScrape L c1 s1)
                 (\<lambda>(c2, err2) s2.
                    (Returns (c2, map_option (Wraps ''failure scraping imdb watchlist id'') err2), s2))))
   \<and> NewImdbClient (mock_lib mock_imdb) (mock_config ''scrape'') []
       = (Returns (Inr (mock_client ''ur12345'' ''ls99999'')),
          [\<lparr>req_Method = ''GET'', req_URL = ''https://www.imdb.com/profile'', req_Body = None\<rparr>,
           \<lparr>req_Method = ''GET'', req_URL = ''https://www.imdb.com/watchlist'', req_Body = None\<rparr>])"
proof (intro conjI impI)
  assume "UserId (config c) \<noteq> [] \<and> UserId (config c) \<noteq> ''scrape''"
  then show "Hydrate L c s =
        and_then (WatchlistIdScrape L c s)
          (\<lambda>(c2, err2) s2.
             (Returns (c2, map_option (Wraps ''failure scraping imdb watchlist id'') err2), s2))"
    by (simp add: Hydrate_def and_then_wrap)
next
  assume "UserId (config c) = [] \<or> UserId (config c) = ''scrape''"
  then show "Hydrate L c s =
        and_then (UserIdScrape L c s)
          (\<lambda>(c1, err1) s1. case err1 of
             Some err \<Rightarrow> (Returns (c1, Some (Wraps ''failure scraping imdb user id'' err)), s1)
           | None \<Rightarrow>
               and_then (WatchlistIdScrape L c1 s1)
                 (\<lambda>(c2, err2) s2.
                    (Returns (c2, map_option (Wraps ''failure scraping imdb watchlist id'') err2), s2)))"
    by (simp only: Hydrate_def and_then_wrap if_True)
next
  show "NewImdbClient (mock_lib mock_imdb) (mock_config ''scrape'') []
       = (Returns (Inr (mock_client ''ur12345'' ''ls99999'')),
          [\<lparr>req_Method = ''GET'', req_URL = ''https://www.imdb.com/profile'', req_Body = None\<rparr>,
           \<lparr>req_Method = ''GET'', req_URL = ''https://www.imdb.com/watchlist'', req_Body = None\<rparr>])"
    by (simp add: NewImdbClient_def setupCookieJar_def Hydrate_def UserIdScrape_def
          WatchlistIdScrape_def doRequest_def deferred_def DrainBody_def Attr_def Let_def
          mock_config_def mock_defs const_defs)
qed

theorem Hydrate_policy_witness:
  "Hydrate (mock_lib mock_imdb) (mock_client ''ur555'' []) []
     = (Returns (mock_client ''ur555'' ''ls99999'', None),
        [\<lparr>req_Method = ''GET'', req_URL = ''https://www.imdb.com/watchlist'', req_Body = None\<rparr>])
   \<and> Hydrate (mock_lib mock_imdb) (mock_client [] []) []
     = (Returns (mock_client ''ur12345'' ''ls99999'', None),
        [\<lparr>req_Method = ''GET'', req_URL = ''https://www.imdb.com/profile'', req_Body = None\<rparr>,
         \<lparr>req_Method = ''GET'', req_URL = ''https://www.imdb.com/watchlist'', req_Body = None\<rparr>])"
proof -
  let ?L = "mock_lib mock_imdb"
  have u: "UserIdScrape ?L (mock_client [] []) []
     = (Returns (mock_client ''ur12345'' [], None),
        [\<lparr>req_Method = ''GET'', req_URL = ''https://www.imdb.com/profile'', req_Body = None\<rparr>])"
    by (simp add: NewImdbClient_def setupCookieJar_def Hydrate_def UserIdScrape_def
          WatchlistIdScrape_def doRequest_def deferred_def DrainBody_def Attr_def Let_def
          mock_config_def mock_defs const_defs)
  have w: "WatchlistIdScrape ?L (mock_client userId []) log
     = (Returns (mock_client userId ''ls99999'', None),
        log @ [\<lparr>req_Method = ''GET'', req_URL = ''https://www.imdb.com/watchlist'', req_Body = None\<rparr>])"
    for userId log
    by (simp add: NewImdbClient_def setupCookieJar_def Hydrate_def UserIdScrape_def
          WatchlistIdScrape_def doRequest_def deferred_def DrainBody_def Attr_def Let_def
          mock_config_def mock_defs const_defs)
  have c1: "UserId (config (mock_client ''ur555'' [])) \<noteq> []
            \<and> UserId (config (mock_client ''ur555'' [])) \<noteq> ''scrape''"
    by (simp add: mock_client_def)
  have c2: "UserId (config (mock_client [] [])) = [] \<or> UserId (config (mock_client [] [])) = ''scrape''"
    by (simp add: mock_client_def)
  have a: "Hydrate ?L (mock_client ''ur555'' []) []
     = (Returns (mock_client ''ur555'' ''ls99999'', None),
        [\<lparr>req_Method = ''GET'', req_URL = ''https://www.imdb.com/watchlist'', req_Body = None\<rparr>])"
    using Hydrate_policy [of "mock_client ''ur555'' []" ?L "[]", THEN conjunct1, rule_format, OF c1]
    by (simp add: w)
  have b: "Hydrate ?L (mock_client [] []) []
     = (Returns (mock_client ''ur12345'' ''ls99999'', None),
        [\<lparr>req_Method = ''GET'', req_URL = ''https://www.imdb.com/profile'', req_Body = None\<rparr>,
         \<lparr>req_Method = ''GET'', req_URL = ''https://www.imdb.com/watchlist'', req_Body = None\<rparr>])"
    using Hydrate_policy [of "mock_client [] []" ?L "[]", THEN conjunct2, THEN conjunct1, rule_format, OF c2]
    by (simp add: u w)
  show ?thesis using a b by simp
qed

text \<open>
  Claim C3 as stated fails: the user id \<^verbatim>\<open>auto-detect\<close> is not a sentinel of the
  code. Against the same pages the profile is not requested and the client keeps the
  user id \<^verbatim>\<open>auto-detect\<close>.
\<close>

theorem auto_detect_is_not_scraped:
  "NewImdbClient (mock_lib mock_imdb) (mock_config ''auto-detect'') []
     = (Returns (Inr (mock_client ''auto-detect'' ''ls99999'')),
        [\<lparr>req_Method = ''GET'', req_URL = ''https://www.imdb.com/watchlist'', req_Body = None\<rparr>])
   \<and> UserId (config (mock_client ''auto-detect'' ''ls99999'')) \<noteq> ''ur12345''"
  by (simp add: NewImdbClient_def setupCookieJar_def Hydrate_def UserIdScrape_def
          WatchlistIdScrape_def doRequest_def deferred_def DrainBody_def Attr_def Let_def
          mock_config_def mock_defs const_defs)

end
